theory Spec2Isabelle
  imports Main "HOL-Library.AList"
begin

section \<open>JavaScript values\<close>

text \<open>
  The program is TypeScript compiled without type checks of its values (every field is
  \<open>any\<close>), so the embedding works on JavaScript values.  Numbers are modelled as
  the integers among the doubles, with \<open>NaN\<close> and the two infinities (\<open>JInfinity True\<close>
  is the negative one); fractions do not occur in what is modelled.  Strings are byte
  strings in UTF-8.  \<open>JFun\<close> is a built-in function object, named; \<open>JError name message
  stack\<close> is an instance of \<open>Error\<close>.
\<close>

datatype jsval =
    JUndefined
  | JNull
  | JBool bool
  | JNum int
  | JStr string
  | JArr "jsval list"
  | JObj "(string \<times> jsval) list"
  | JFun string
  | JError string string string
  | JNaN
  | JInfinity bool

text \<open>ToBoolean: what \<open>if (v)\<close>, \<open>!v\<close> and \<open>a || b\<close> test.\<close>

fun truthy :: "jsval \<Rightarrow> bool" where
  "truthy JUndefined = False"
| "truthy JNull = False"
| "truthy (JBool b) = b"
| "truthy (JNum n) = (n \<noteq> 0)"
| "truthy (JStr s) = (s \<noteq> [])"
| "truthy (JArr xs) = True"
| "truthy (JObj kvs) = True"
| "truthy (JFun f) = True"
| "truthy (JError n m s) = True"
| "truthy JNaN = False"
| "truthy (JInfinity b) = True"

definition js_or :: "jsval \<Rightarrow> jsval \<Rightarrow> jsval" where
  "js_or a b = (if truthy a then a else b)"

fun is_string :: "jsval \<Rightarrow> bool" where
  "is_string (JStr s) = True"
| "is_string v = False"

text \<open>\<open>Array.prototype.join\<close> on strings.\<close>

fun join :: "string \<Rightarrow> string list \<Rightarrow> string" where
  "join sep [] = []"
| "join sep [x] = x"
| "join sep (x # y # ys) = x @ sep @ join sep (y # ys)"

definition digit_char :: "nat \<Rightarrow> char" where
  "digit_char n = char_of (48 + n)"

fun show_nat :: "nat \<Rightarrow> string" where
  "show_nat n = (if n < 10 then [digit_char n] else show_nat (n div 10) @ [digit_char (n mod 10)])"

declare show_nat.simps [simp del]

definition show_int :: "int \<Rightarrow> string" where
  "show_int i = (if i < 0 then CHR ''-'' # show_nat (nat (- i)) else show_nat (nat i))"

text \<open>
  ToString, as template literals, \<open>parseInt\<close> and property keys apply it.  A number
  prints as its decimal digits, which is what JavaScript prints below \<open>10^21\<close>.
\<close>

fun to_string :: "jsval \<Rightarrow> string" where
  "to_string JUndefined = ''undefined''"
| "to_string JNull = ''null''"
| "to_string (JBool b) = (if b then ''true'' else ''false'')"
| "to_string (JNum n) = show_int n"
| "to_string (JStr s) = s"
| "to_string (JArr xs) =
     join '','' (map (\<lambda>x. if x = JUndefined \<or> x = JNull then [] else to_string x) xs)"
| "to_string (JObj kvs) = ''[object Object]''"
| "to_string (JFun f) = ''function '' @ f @ ''() { [native code] }''"
| "to_string (JError n m s) = (if m = [] then n else if n = [] then m else n @ '': '' @ m)"
| "to_string JNaN = ''NaN''"
| "to_string (JInfinity b) = (if b then ''-Infinity'' else ''Infinity'')"

text \<open>
  Property lookup \<open>o[k]\<close> on an object: the object's own properties, then the ones every
  object inherits from \<open>Object.prototype\<close>.  On a value that is not an object the
  program only ever asks for option and command names, none of which is a property of
  a string, number or array, so the lookup gives \<open>undefined\<close> there.
\<close>

definition object_prototype :: "(string \<times> jsval) list" where
  "object_prototype =
    [(''constructor'', JFun ''Object''),
     (''__defineGetter__'', JFun ''__defineGetter__''),
     (''__defineSetter__'', JFun ''__defineSetter__''),
     (''hasOwnProperty'', JFun ''hasOwnProperty''),
     (''__lookupGetter__'', JFun ''__lookupGetter__''),
     (''__lookupSetter__'', JFun ''__lookupSetter__''),
     (''isPrototypeOf'', JFun ''isPrototypeOf''),
     (''propertyIsEnumerable'', JFun ''propertyIsEnumerable''),
     (''toString'', JFun ''toString''),
     (''valueOf'', JFun ''valueOf''),
     (''__proto__'', JObj []),
     (''toLocaleString'', JFun ''toLocaleString'')]"

definition get_prop :: "jsval \<Rightarrow> string \<Rightarrow> jsval" where
  "get_prop v k =
    (case v of
       JObj kvs \<Rightarrow>
         (case map_of kvs k of
            Some x \<Rightarrow> x
          | None \<Rightarrow> (case map_of object_prototype k of Some x \<Rightarrow> x | None \<Rightarrow> JUndefined))
     | _ \<Rightarrow> JUndefined)"

section \<open>parseInt\<close>

text \<open>
  \<open>ws_len s\<close> is the number of bytes of the white space or line terminator character
  (StrWhiteSpaceChar) that \<open>s\<close> starts with, 0 when it starts with none: TAB, LF, VT, FF,
  CR, SP, U+00A0, U+1680, U+2000 to U+200A, U+2028, U+2029, U+202F, U+205F, U+3000 and
  U+FEFF.
\<close>

definition ws_len :: "string \<Rightarrow> nat" where
  "ws_len s =
    (let b = map of_char (take 3 s) :: nat list in
     if take 1 b \<in> set [[9], [10], [11], [12], [13], [32]] then 1
     else if take 2 b = [0xC2, 0xA0] then 2
     else if b \<in> set ([[0xE1, 0x9A, 0x80], [0xE2, 0x80, 0xA8], [0xE2, 0x80, 0xA9],
                        [0xE2, 0x80, 0xAF], [0xE2, 0x81, 0x9F], [0xE3, 0x80, 0x80],
                        [0xEF, 0xBB, 0xBF]] @ map (\<lambda>k. [0xE2, 0x80, k]) [0x80 ..< 0x8B])
     then 3
     else 0)"

lemma ws_len_Nil: "ws_len [] = 0"
  by (simp add: ws_len_def)

function skip_white_space :: "string \<Rightarrow> string" where
  "skip_white_space s = (if ws_len s = 0 then s else skip_white_space (drop (ws_len s) s))"
  by pat_completeness auto
termination
proof (relation "measure length")
  show "wf (measure length)" by simp
next
  fix s :: string
  assume "ws_len s \<noteq> 0"
  then have "s \<noteq> []" using ws_len_Nil by auto
  with \<open>ws_len s \<noteq> 0\<close> show "(drop (ws_len s) s, s) \<in> measure length" by simp
qed

declare skip_white_space.simps [simp del]

text \<open>The value of a character as a digit in radix \<open>R\<close>, if it is one.\<close>

definition digit_value :: "nat \<Rightarrow> char \<Rightarrow> nat option" where
  "digit_value R c =
    (let n = of_char c :: nat;
         d = (if 48 \<le> n \<and> n \<le> 57 then Some (n - 48)
              else if 97 \<le> n \<and> n \<le> 122 then Some (n - 87)
              else if 65 \<le> n \<and> n \<le> 90 then Some (n - 55)
              else None)
     in case d of Some v \<Rightarrow> if v < R then Some v else None | None \<Rightarrow> None)"

definition digits_value :: "nat \<Rightarrow> string \<Rightarrow> int" where
  "digits_value R z =
    foldl (\<lambda>a c. a * int R + int (case digit_value R c of Some d \<Rightarrow> d | None \<Rightarrow> 0)) 0 z"

text \<open>
  \<open>parseInt(string)\<close> with no radix, as ECMAScript defines it.  First the mathematical
  integer that the string holds: skip leading white space, take one sign, take the
  prefix \<open>0x\<close> or \<open>0X\<close> as radix 16 (radix 10 otherwise), then read the longest run of
  digits of that radix and ignore what follows; there is none (\<open>None\<close>) when that run is
  empty.
\<close>

definition math_int :: "string \<Rightarrow> int option" where
  "math_int inputString =
    (let s = skip_white_space inputString;
         neg = (take 1 s = ''-'');
         s1 = (if take 1 s = ''-'' \<or> take 1 s = ''+'' then drop 1 s else s);
         hex = (take 2 s1 = ''0x'' \<or> take 2 s1 = ''0X'');
         R = (if hex then 16 else 10);
         s2 = (if hex then drop 2 s1 else s1);
         z = takeWhile (\<lambda>c. digit_value R c \<noteq> None) s2
     in if z = [] then None
        else Some (if neg then - digits_value R z else digits_value R z))"

text \<open>
  Then the number value of that integer: the nearest double, ties to the even mantissa,
  and infinity from \<open>2^1024 - 2^970\<close> on.  Below \<open>2^53\<close> it is the integer itself.  (The
  standard lets an implementation drop decimal digits after the twentieth; Node reads
  them all.)
\<close>

function bit_length :: "int \<Rightarrow> nat" where
  "bit_length n = (if n \<le> 0 then 0 else Suc (bit_length (n div 2)))"
  by pat_completeness auto

termination
  by (relation "measure nat") auto

declare bit_length.simps [simp del]

definition round_double :: "int \<Rightarrow> int option" where
  "round_double m =
    (if m < 2 ^ 53 then Some m
     else
       let e = bit_length m - 53;
           q = m div 2 ^ e;
           r = m mod 2 ^ e;
           h = 2 ^ (e - 1);
           q' = (if h < r \<or> (r = h \<and> odd q) then q + 1 else q)
       in if 2 ^ 1024 \<le> q' * 2 ^ e then None else Some (q' * 2 ^ e))"

definition to_number :: "int \<Rightarrow> jsval" where
  "to_number i =
    (case round_double \<bar>i\<bar> of
       None \<Rightarrow> JInfinity (i < 0)
     | Some m \<Rightarrow> JNum (if i < 0 then - m else m))"

definition parseInt_str :: "string \<Rightarrow> jsval" where
  "parseInt_str inputString =
    (case math_int inputString of None \<Rightarrow> JNaN | Some n \<Rightarrow> to_number n)"

definition parseInt :: "jsval \<Rightarrow> jsval" where
  "parseInt v = parseInt_str (to_string v)"

text \<open>\<open>x * k\<close> for a number \<open>x\<close> that \<open>parseInt\<close> returned and a positive integer \<open>k\<close>.\<close>

definition js_times :: "jsval \<Rightarrow> int \<Rightarrow> jsval" where
  "js_times x k =
    (case x of JNum n \<Rightarrow> to_number (n * k) | JInfinity b \<Rightarrow> JInfinity b | _ \<Rightarrow> JNaN)"

section \<open>The process and its surroundings\<close>

text \<open>
  What the program reads from outside itself: the environment variables
  (\<open>process.env\<close>, with the contents of \<open>.env\<close>), the file system tests
  \<open>fs.existsSync\<close> and \<open>fs.lstatSync(_).isFile()\<close>, and the built-ins \<open>JSON.parse\<close>
  (\<open>None\<close> when it throws) and \<open>JSON.stringify(v, null, indent)\<close>.
  \<open>link_rel_next h\<close> is \<open>LinkHeader.parse(h).rel('next')\<close> of the package
  http-link-header: the \<open>uri\<close> of each link found, in order (\<open>[]\<close> for a link without
  one), or \<open>Inl e\<close> when the parser throws \<open>e\<close>.
\<close>

record sys =
  env :: "string \<Rightarrow> string option"
  exists_sync :: "jsval \<Rightarrow> bool"
  is_file :: "jsval \<Rightarrow> bool"
  json_parse :: "string \<Rightarrow> jsval option"
  json_stringify :: "jsval \<Rightarrow> jsval \<Rightarrow> jsval"
  link_rel_next :: "string \<Rightarrow> jsval + string list"

definition env_var :: "sys \<Rightarrow> string \<Rightarrow> jsval" where
  "env_var s name = (case env s name of None \<Rightarrow> JUndefined | Some v \<Rightarrow> JStr v)"

text \<open>
  An option as argparse holds it.  \<open>run\<close> reads the properties \<open>dest\<close>, \<open>type\<close> (one of
  the functions of \<open>arg\<close>, or none), \<open>choices\<close> and \<open>action\<close> of the object.  argparse
  makes an object of the class of the action and keeps the name of the action in no
  property, so \<open>action\<close> is undefined on the objects it makes; \<open>store_true\<close> tells that
  the option was added with the action \<open>storeTrue\<close>.  \<open>required\<close> is what \<open>addArgument\<close>
  was given; \<open>run\<close> never reads it.
\<close>

datatype argtype = ArgInteger | ArgFile | ArgPath | ArgJson

record option_desc =
  dest :: "string option"
  otype :: "argtype option"
  choices :: "jsval list option"
  action :: "string option"
  required :: bool
  store_true :: bool

text \<open>
  \<open>this.parser.error(message)\<close> ends the process inside argparse.  One constructor for
  each call of it in \<open>run\<close>, holding what the message interpolates:
  \<^item> \<open>MustBeNumeric\<close>, \<open>DoesNotExist\<close>, \<open>NotAFile\<close>, \<open>NotValidJSON\<close> and \<open>MustBeBoolean\<close> are
    the coercion failures (the specification's TypeCoercionError; the message of
    \<open>MustBeBoolean\<close> holds the literal text \<open>%{option.dest}\<close>, not the option's name);
  \<^item> \<open>MustBeOneOf\<close> is its InvalidChoice;
  \<^item> \<open>NoApiKey\<close> ("no API key provided") is its MissingRequiredOption for the API key;
  \<^item> \<open>ExactlyOneOfUserGroup\<close> ("You must provide exactly one of --user-id or
    --group-id") is its ScopeConflictError.
  \<open>CommandError\<close> is a call of \<open>parser.error\<close> by a command handler, and
  \<open>ArgumentRequired\<close> the error of \<open>parseArgs\<close> for a required option that the command
  line does not give (also the specification's MissingRequiredOption).
\<close>

datatype perror =
    MustBeNumeric string jsval
  | DoesNotExist string jsval
  | NotAFile string jsval
  | NotValidJSON string jsval
  | MustBeOneOf string "jsval list"
  | MustBeBoolean jsval
  | NoApiKey
  | ExactlyOneOfUserGroup
  | CommandError string
  | ArgumentRequired string

text \<open>A failure is either the parser's error (the process is gone) or a thrown value.\<close>

datatype failure = ParserError perror | Thrown jsval

text \<open>The fields of the class \<open>Zotero\<close> (\<open>output_text\<close> is its field \<open>output\<close>); \<open>base\<close> is a constant.\<close>

record zotero =
  args :: "(string \<times> jsval) list"
  output_text :: string
  config :: "(string \<times> jsval) list"
  headers :: "(string \<times> jsval) list"

definition base :: string where
  "base = ''https://api.zotero.org''"

definition arg_of :: "zotero \<Rightarrow> string \<Rightarrow> jsval" where
  "arg_of z d = (case map_of (args z) d of None \<Rightarrow> JUndefined | Some v \<Rightarrow> v)"

definition set_arg :: "zotero \<Rightarrow> string \<Rightarrow> jsval \<Rightarrow> zotero" where
  "set_arg z d v = z\<lparr>args := AList.update d v (args z)\<rparr>"

section \<open>Configuration resolution (run, lines 86 to 175)\<close>

text \<open>\<open>dest.replace(/_/g, '-')\<close> and \<open>dest.toUpperCase()\<close> (on ASCII letters).\<close>

definition hyphenate :: "string \<Rightarrow> string" where
  "hyphenate d = map (\<lambda>c. if c = CHR ''_'' then CHR ''-'' else c) d"

definition to_upper :: "string \<Rightarrow> string" where
  "to_upper d =
    map (\<lambda>c. let n = of_char c :: nat in if 97 \<le> n \<and> n \<le> 122 then char_of (n - 32) else c) d"

text \<open>Lines 86 to 96: ids given on the command line replace both ids of the config.\<close>

definition override_config :: "zotero \<Rightarrow> zotero" where
  "override_config z =
    (if truthy (js_or (arg_of z ''user_id'') (arg_of z ''group_id'')) then
       let c = AList.delete ''user-id'' (config z);
           c = AList.delete ''group-id'' c;
           c = AList.update ''user-id'' (arg_of z ''user_id'') c;
           c = AList.update ''group-id'' (arg_of z ''group_id'') c;
           c = (if \<not> truthy (get_prop (JObj c) ''user-id'') then AList.delete ''user-id'' c else c);
           c = (if \<not> truthy (get_prop (JObj c) ''group-id'') then AList.delete ''group-id'' c else c)
       in z\<lparr>config := c\<rparr>
     else z)"

text \<open>
  Lines 110 to 111 and again 121 to 122: the option under the table of the selected
  command, else at the top level of the config.
\<close>

definition command_section_value :: "zotero \<Rightarrow> string \<Rightarrow> jsval" where
  "command_section_value z d =
    get_prop (js_or (get_prop (JObj (config z)) (to_string (arg_of z ''command''))) (JObj []))
      (hyphenate d)"

definition global_value :: "zotero \<Rightarrow> string \<Rightarrow> jsval" where
  "global_value z d = get_prop (JObj (config z)) (hyphenate d)"

definition config_value :: "zotero \<Rightarrow> string \<Rightarrow> jsval" where
  "config_value z d =
    (let value = command_section_value z d
     in if value = JUndefined then global_value z d else value)"

text \<open>Line 116: the two environment variables, joined by \<open>||\<close>.\<close>

definition env_value :: "sys \<Rightarrow> string \<Rightarrow> jsval" where
  "env_value s d =
    js_or (env_var s (''ZOTERO_CLI_'' @ to_upper d)) (env_var s (''ZOTERO_'' @ to_upper d))"

text \<open>Lines 106 to 123: the raw value of an option that the command line did not give.\<close>

definition lookup_value :: "sys \<Rightarrow> zotero \<Rightarrow> string \<Rightarrow> jsval" where
  "lookup_value s z d =
    (let value = JUndefined;
         value = (if value = JUndefined \<and> truthy (arg_of z ''config'')
                  then config_value z d else value);
         value = (if value = JUndefined then env_value s d else value);
         value = (if value = JUndefined then config_value z d else value)
     in value)"

text \<open>Lines 148 to 156: the object literal that the flag's string indexes.\<close>

definition flag_table :: jsval where
  "flag_table =
    JObj [(''true'', JBool True), (''yes'', JBool True), (''on'', JBool True),
          (''false'', JBool False), (''no'', JBool False), (''off'', JBool False)]"

text \<open>
  Lines 127 to 162: the chain of \<open>else if\<close> that checks and converts the raw value.
  \<open>choices.includes\<close> compares strings and numbers by value.
\<close>

definition coerce :: "sys \<Rightarrow> option_desc \<Rightarrow> string \<Rightarrow> jsval \<Rightarrow> perror + jsval" where
  "coerce s opt d value =
    (if otype opt = Some ArgInteger then
       (if parseInt value = JNaN then Inl (MustBeNumeric d value) else Inr (parseInt value))
     else if otype opt = Some ArgPath then
       (if \<not> exists_sync s value then Inl (DoesNotExist d value) else Inr value)
     else if otype opt = Some ArgFile then
       (if \<not> exists_sync s value \<or> \<not> is_file s value then Inl (NotAFile d value)
        else Inr value)
     else if otype opt = Some ArgJson \<and> is_string value then
       (case json_parse s (to_string value) of
          None \<Rightarrow> Inl (NotValidJSON d value)
        | Some v \<Rightarrow> Inr v)
     else if choices opt \<noteq> None then
       (case choices opt of
          Some cs \<Rightarrow> if value \<notin> set cs then Inl (MustBeOneOf d cs) else Inr value
        | None \<Rightarrow> Inr value)
     else if action opt = Some ''storeTrue'' \<and> is_string value then
       (let v = get_prop flag_table (to_string value)
        in if v = JUndefined then Inl (MustBeBoolean value) else Inr v)
     else Inr value)"

text \<open>Lines 100 to 165: the body of the loop over the options, then the loop.\<close>

definition resolve_option :: "sys \<Rightarrow> option_desc \<Rightarrow> zotero \<Rightarrow> perror + zotero" where
  "resolve_option s opt z =
    (case dest opt of
       None \<Rightarrow> Inr z
     | Some d \<Rightarrow>
         if d = [] then Inr z
         else if d \<in> set [''help'', ''config''] then Inr z
         else if arg_of z d \<noteq> JNull then Inr z
         else
           let value = lookup_value s z d
           in if value = JUndefined then Inr z
              else (case coerce s opt d value of
                      Inl e \<Rightarrow> Inl e
                    | Inr v \<Rightarrow> Inr (set_arg z d v)))"

fun resolve_options :: "sys \<Rightarrow> option_desc list \<Rightarrow> zotero \<Rightarrow> perror + zotero" where
  "resolve_options s [] z = Inr z"
| "resolve_options s (opt # opts) z =
    (case resolve_option s opt z of
       Inl e \<Rightarrow> Inl e
     | Inr z' \<Rightarrow> resolve_options s opts z')"

text \<open>
  Lines 58 and 86 to 171: \<open>z\<close> holds the parsed command line (\<open>this.args\<close>, with
  \<open>null\<close> for an option that was not given and \<open>false\<close> for a flag that was not) and
  the parsed config file (\<open>{}\<close> when there is none).
  The checks after the loop come in the order of the source: the API key first.
\<close>

definition resolve :: "sys \<Rightarrow> option_desc list \<Rightarrow> zotero \<Rightarrow> perror + zotero" where
  "resolve s options z0 =
    (case resolve_options s options (override_config (z0\<lparr>output_text := []\<rparr>)) of
       Inl e \<Rightarrow> Inl e
     | Inr z \<Rightarrow>
         if \<not> truthy (arg_of z ''api_key'') then Inl NoApiKey
         else
           let z = z\<lparr>headers := AList.update ''Zotero-API-Key'' (arg_of z ''api_key'') (headers z)\<rparr>
           in if arg_of z ''user_id'' = JNull \<and> arg_of z ''group_id'' = JNull
              then Inl ExactlyOneOfUserGroup
              else if arg_of z ''user_id'' \<noteq> JNull \<and> arg_of z ''group_id'' \<noteq> JNull
              then Inl ExactlyOneOfUserGroup
              else Inr z)"

section \<open>The HTTP client\<close>

text \<open>
  A request as the program hands it to \<open>request-promise\<close>, and the reply it gets.  The
  options \<open>json\<close>, \<open>encoding\<close> and \<open>resolveWithFullResponse\<close> only choose how much of the
  reply the promise resolves to; the model's reply always has headers and body, and a
  caller that did not ask for the full response reads \<open>rs_body\<close>.
\<close>

record http_request =
  rq_method :: string
  rq_uri :: string
  rq_headers :: "(string \<times> jsval) list"
  rq_body :: jsval

record response =
  rs_headers :: "(string \<times> string) list"
  rs_body :: jsval

text \<open>
  Everything the process does to the outside is an event of a trace, in order.
  \<open>Sleep m\<close> is the call \<open>sleep(m)\<close> of line 20, which ends when the timer of
  \<open>setTimeout(resolve, m)\<close> fires.  Node runs that timer for \<open>m\<close> milliseconds when
  \<open>m\<close> is from 1 to 2147483647, and for 1 millisecond for any other \<open>m\<close>.
\<close>

datatype event =
    HttpRequest http_request
  | Sleep jsval
  | ConsoleLog "jsval list"
  | ConsoleError "jsval list"
  | WriteFile jsval string

text \<open>
  The remote side: \<open>request(options)\<close> together with the server, as a function of a
  state \<open>'w\<close> of the remote world.  \<open>Inl e\<close> is a promise rejected with \<open>e\<close> (for a status
  that is not 2xx, the StatusCodeError of request-promise), \<open>Inr r\<close> a promise resolved.
\<close>

type_synonym 'w http = "'w \<Rightarrow> http_request \<Rightarrow> (jsval + response) \<times> 'w"

type_synonym 'w io = "'w \<times> event list"

definition emit :: "event \<Rightarrow> 'w io \<Rightarrow> 'w io" where
  "emit e st = (fst st, snd st @ [e])"

definition sleep :: "jsval \<Rightarrow> 'w io \<Rightarrow> 'w io" where
  "sleep msecs st = emit (Sleep msecs) st"


definition request :: "'w http \<Rightarrow> http_request \<Rightarrow> 'w io \<Rightarrow> (failure + response) \<times> 'w io" where
  "request http rq st =
    (case http (fst st) rq of
       (Inl e, w) \<Rightarrow> (Inl (Thrown e), (w, snd st @ [HttpRequest rq]))
     | (Inr r, w) \<Rightarrow> (Inr r, (w, snd st @ [HttpRequest rq])))"

text \<open>
  \<open>encodeURI\<close> on a UTF-8 string: the unreserved and reserved characters and \<open>#\<close> stay,
  every other byte becomes \<open>%XX\<close>.
\<close>

definition hex_char :: "nat \<Rightarrow> char" where
  "hex_char n = (if n < 10 then char_of (48 + n) else char_of (55 + n))"

definition uri_keeps :: "char \<Rightarrow> bool" where
  "uri_keeps c =
    (let n = of_char c :: nat in
     (48 \<le> n \<and> n \<le> 57) \<or> (65 \<le> n \<and> n \<le> 90) \<or> (97 \<le> n \<and> n \<le> 122) \<or>
     c \<in> set ''-_.!~*()'' \<or> n = 39 \<or> c \<in> set '';/?:@&=+$,#'')"

definition encodeURI :: "string \<Rightarrow> string" where
  "encodeURI str =
    concat (map (\<lambda>c. if uri_keeps c then [c]
                       else [CHR ''%'', hex_char (of_char c div 16), hex_char (of_char c mod 16)]) str)"

text \<open>Lines 234, 255, 269, 283 and 300: the prefix of the library.\<close>

definition library_prefix :: "zotero \<Rightarrow> string" where
  "library_prefix z =
    (if truthy (arg_of z ''user_id'') then ''/users/'' @ to_string (arg_of z ''user_id'')
     else ''/groups/'' @ to_string (arg_of z ''group_id''))"

text \<open>Lines 236 to 240: the query string; a parameter that is an array repeats its key.\<close>

definition query_string :: "(string \<times> jsval) list \<Rightarrow> string" where
  "query_string ps =
    join ''&'' (map (\<lambda>(param, vs).
      join ''&'' (map (\<lambda>v. param @ ''='' @ encodeURI (to_string v))
                     (case vs of JArr xs \<Rightarrow> xs | _ \<Rightarrow> [vs]))) ps)"

record get_options =
  userOrGroupPrefix :: "bool option"
  params :: "(string \<times> jsval) list option"

definition get :: "'w http \<Rightarrow> zotero \<Rightarrow> string \<Rightarrow> get_options \<Rightarrow> 'w io
    \<Rightarrow> (failure + response) \<times> 'w io" where
  "get http z uri options st =
    (let with_prefix = (case userOrGroupPrefix options of None \<Rightarrow> True | Some b \<Rightarrow> b);
         ps = (case params options of None \<Rightarrow> [] | Some p \<Rightarrow> p);
         prefix = (if with_prefix then library_prefix z else []);
         q = query_string ps;
         uri = base @ prefix @ uri @ (if q \<noteq> [] then ''?'' @ q else []);
         st = (if truthy (arg_of z ''verbose'')
               then emit (ConsoleError [JStr ''GET'', JStr uri]) st else st)
     in request http \<lparr>rq_method = ''GET'', rq_uri = uri, rq_headers = headers z,
                       rq_body = JUndefined\<rparr> st)"

definition post :: "'w http \<Rightarrow> zotero \<Rightarrow> string \<Rightarrow> jsval \<Rightarrow> (string \<times> jsval) list \<Rightarrow> 'w io
    \<Rightarrow> (failure + response) \<times> 'w io" where
  "post http z uri data hs st =
    (let uri = base @ library_prefix z @ uri;
         st = (if truthy (arg_of z ''verbose'')
               then emit (ConsoleError [JStr ''POST'', JStr uri]) st else st)
     in request http \<lparr>rq_method = ''POST'', rq_uri = uri,
          rq_headers = AList.updates (map fst hs) (map snd hs)
            (AList.update ''Content-Type'' (JStr ''application/json'') (headers z)),
          rq_body = data\<rparr> st)"

definition put :: "'w http \<Rightarrow> zotero \<Rightarrow> string \<Rightarrow> jsval \<Rightarrow> 'w io
    \<Rightarrow> (failure + response) \<times> 'w io" where
  "put http z uri data st =
    (let uri = base @ library_prefix z @ uri;
         st = (if truthy (arg_of z ''verbose'')
               then emit (ConsoleError [JStr ''PUT'', JStr uri]) st else st)
     in request http \<lparr>rq_method = ''PUT'', rq_uri = uri,
          rq_headers = AList.update ''Content-Type'' (JStr ''application/json'') (headers z),
          rq_body = data\<rparr> st)"

text \<open>Lines 282 to 313: \<open>version\<close> is \<open>JUndefined\<close> when the caller gives none.\<close>

definition patch :: "'w http \<Rightarrow> zotero \<Rightarrow> string \<Rightarrow> jsval \<Rightarrow> jsval \<Rightarrow> 'w io
    \<Rightarrow> (failure + response) \<times> 'w io" where
  "patch http z uri data version st =
    (let hs = AList.update ''Content-Type'' (JStr ''application/json'') (headers z);
         hs = (if version \<noteq> JUndefined
               then AList.update ''If-Unmodified-Since-Version'' version hs else hs);
         uri = base @ library_prefix z @ uri;
         st = (if truthy (arg_of z ''verbose'')
               then emit (ConsoleError [JStr ''PATCH'', JStr uri]) st else st)
     in request http \<lparr>rq_method = ''PATCH'', rq_uri = uri, rq_headers = hs, rq_body = data\<rparr> st)"

definition delete_z :: "'w http \<Rightarrow> zotero \<Rightarrow> string \<Rightarrow> jsval \<Rightarrow> 'w io
    \<Rightarrow> (failure + response) \<times> 'w io" where
  "delete_z http z uri version st =
    (let hs = AList.update ''Content-Type'' (JStr ''application/json'') (headers z);
         hs = (if version \<noteq> JUndefined
               then AList.update ''If-Unmodified-Since-Version'' version hs else hs);
         uri = base @ library_prefix z @ uri;
         st = (if truthy (arg_of z ''verbose'')
               then emit (ConsoleError [JStr ''DELETE'', JStr uri]) st else st)
     in request http \<lparr>rq_method = ''DELETE'', rq_uri = uri, rq_headers = hs,
                       rq_body = JUndefined\<rparr> st)"

section \<open>Pagination (all, lines 208 to 226)\<close>

definition header :: "response \<Rightarrow> string \<Rightarrow> jsval" where
  "header r name = (case map_of (rs_headers r) name of None \<Rightarrow> JUndefined | Some v \<Rightarrow> JStr v)"

text \<open>
  \<open>chunk.headers.link && LinkHeader.parse(chunk.headers.link).rel('next')\<close>; the empty
  list also stands for a \<open>link\<close> that is undefined or the empty string.
\<close>

definition next_links :: "sys \<Rightarrow> response \<Rightarrow> jsval + string list" where
  "next_links s chunk =
    (if truthy (header chunk ''link'') then link_rel_next s (to_string (header chunk ''link''))
     else Inr [])"

text \<open>The loop condition \<open>link && link.length && link[0].uri\<close>.\<close>

definition has_next :: "string list \<Rightarrow> bool" where
  "has_next link = (case link of [] \<Rightarrow> False | u # us \<Rightarrow> u \<noteq> [])"

text \<open>
  \<open>data.concat(body)\<close>: on an array, an array argument is spliced in and any other value
  appended; on a string, string concatenation; any other \<open>data\<close> has no \<open>concat\<close>.
\<close>

definition js_concat :: "jsval \<Rightarrow> jsval \<Rightarrow> jsval + jsval" where
  "js_concat data b =
    (case data of
       JArr xs \<Rightarrow> Inr (JArr (xs @ (case b of JArr ys \<Rightarrow> ys | _ \<Rightarrow> [b])))
     | JStr x \<Rightarrow> Inr (JStr (x @ to_string b))
     | _ \<Rightarrow> Inl (JError ''TypeError'' ''data.concat is not a function'' []))"

definition next_request :: "zotero \<Rightarrow> string list \<Rightarrow> http_request" where
  "next_request z link =
    \<lparr>rq_method = ''GET'', rq_uri = (case link of [] \<Rightarrow> [] | u # us \<Rightarrow> u),
     rq_headers = headers z, rq_body = JUndefined\<rparr>"

text \<open>Lines 214 to 223: one turn of the loop, entered when the condition holds.\<close>

definition all_step :: "'w http \<Rightarrow> sys \<Rightarrow> zotero \<Rightarrow> response \<Rightarrow> jsval \<Rightarrow> string list \<Rightarrow> 'w io
    \<Rightarrow> (failure + response \<times> jsval \<times> string list) \<times> 'w io" where
  "all_step http s z chunk data link st =
    (let st = (if truthy (header chunk ''backoff'')
               then sleep (js_times (parseInt (header chunk ''backoff'')) 1000) st
               else st)
     in case request http (next_request z link) st of
          (Inl e, st) \<Rightarrow> (Inl e, st)
        | (Inr chunk, st) \<Rightarrow>
            (case js_concat data (rs_body chunk) of
               Inl e \<Rightarrow> (Inl (Thrown e), st)
             | Inr data \<Rightarrow>
                 (case next_links s chunk of
                    Inl e \<Rightarrow> (Inl (Thrown e), st)
                  | Inr link \<Rightarrow> (Inr (chunk, data, link), st))))"

text \<open>
  The loop of lines 213 to 224.  Nothing bounds it: a server whose every page names a
  next page keeps it running, and then \<open>all_loop\<close> is \<open>None\<close>.
\<close>

partial_function (option) all_loop :: "'w http \<Rightarrow> sys \<Rightarrow> zotero \<Rightarrow> response \<Rightarrow> jsval
    \<Rightarrow> string list \<Rightarrow> 'w io \<Rightarrow> ((failure + jsval) \<times> 'w io) option" where
  "all_loop http s z chunk data link st =
    (if has_next link then
       (case all_step http s z chunk data link st of
          (Inl e, st') \<Rightarrow> Some (Inl e, st')
        | (Inr (chunk', data', link'), st') \<Rightarrow> all_loop http s z chunk' data' link' st')
     else Some (Inr data, st))"

definition all_z :: "'w http \<Rightarrow> sys \<Rightarrow> zotero \<Rightarrow> string \<Rightarrow> (string \<times> jsval) list \<Rightarrow> 'w io
    \<Rightarrow> ((failure + jsval) \<times> 'w io) option" where
  "all_z http s z uri ps st =
    (case get http z uri \<lparr>userOrGroupPrefix = None, params = Some ps\<rparr> st of
       (Inl e, st) \<Rightarrow> Some (Inl e, st)
     | (Inr chunk, st) \<Rightarrow>
         (case next_links s chunk of
            Inl e \<Rightarrow> Some (Inl (Thrown e), st)
          | Inr link \<Rightarrow> all_loop http s z chunk (rs_body chunk) link st))"

definition count :: "'w http \<Rightarrow> zotero \<Rightarrow> string \<Rightarrow> (string \<times> jsval) list \<Rightarrow> 'w io
    \<Rightarrow> (failure + jsval) \<times> 'w io" where
  "count http z uri ps st =
    (case get http z uri \<lparr>userOrGroupPrefix = None, params = Some ps\<rparr> st of
       (Inl e, st) \<Rightarrow> (Inl e, st)
     | (Inr r, st) \<Rightarrow> (Inr (header r ''total-results''), st))"

section \<open>Output (print and show, lines 188 to 206 and 319 to 321)\<close>

text \<open>Lines 194 to 202: what \<open>print\<close> turns one argument into when \<open>--out\<close> is set.\<close>

definition print_item :: "sys \<Rightarrow> zotero \<Rightarrow> jsval \<Rightarrow> jsval" where
  "print_item s z m =
    (case m of
       JStr x \<Rightarrow> m
     | JNum n \<Rightarrow> m
     | JUndefined \<Rightarrow> m
     | JBool b \<Rightarrow> m
     | JNull \<Rightarrow> m
     | JNaN \<Rightarrow> m
     | JInfinity b \<Rightarrow> m
     | JError name message stack \<Rightarrow>
         JStr (''<Error: '' @ (if message \<noteq> [] then message else name) @
               (if stack \<noteq> [] then CHR 0x0A # stack else []) @ ''>'')
     | JObj kvs \<Rightarrow>
         if truthy (get_prop m ''message'')
         then JStr (''<Error: '' @ to_string (get_prop m ''message'') @ ''#'' @ [CHR 0x0A] @
                    to_string (get_prop m ''stack'') @ ''>'')
         else json_stringify s m (arg_of z ''indent'')
     | _ \<Rightarrow> json_stringify s m (arg_of z ''indent''))"

definition print :: "sys \<Rightarrow> zotero \<Rightarrow> jsval list \<Rightarrow> 'w io \<Rightarrow> zotero \<times> 'w io" where
  "print s z items st =
    (if \<not> truthy (arg_of z ''out'') then (z, emit (ConsoleLog items) st)
     else
       (z\<lparr>output_text := output_text z @
            join '' '' (map (\<lambda>m. let v = print_item s z m
                                 in if v = JUndefined \<or> v = JNull then [] else to_string v) items) @
            [CHR 0x0A]\<rparr>, st))"

text \<open>
  \<open>str.replace(new RegExp(key, 'g'), '<API-KEY>')\<close> for a key without regular
  expression metacharacters (the keys of the service are alphanumeric): every
  occurrence of the key, from the left, is replaced.
\<close>

function replace_all :: "string \<Rightarrow> string \<Rightarrow> string \<Rightarrow> string" where
  "replace_all pat rep str =
    (if pat = [] then concat (map (\<lambda>c. rep @ [c]) str) @ rep
     else if str = [] then []
     else if take (length pat) str = pat then rep @ replace_all pat rep (drop (length pat) str)
     else hd str # replace_all pat rep (tl str))"
  by pat_completeness auto
termination
  by (relation "measure (\<lambda>(pat, rep, str). length str)") auto

declare replace_all.simps [simp del]

definition show_z :: "sys \<Rightarrow> zotero \<Rightarrow> jsval \<Rightarrow> 'w io \<Rightarrow> (failure + unit) \<times> zotero \<times> 'w io" where
  "show_z s z v st =
    (case json_stringify s v (arg_of z ''indent'') of
       JStr text \<Rightarrow>
         (case print s z [JStr (replace_all (to_string (arg_of z ''api_key'')) ''<API-KEY>'' text)] st of
            (z', st') \<Rightarrow> (Inr (), z', st'))
     | _ \<Rightarrow> (Inl (Thrown (JError ''TypeError'' ''Cannot read property replace'' [])), z, st))"

section \<open>The run of a command (run, lines 172 to 186, and the last lines of the file)\<close>

text \<open>
  A command handler (\<open>this['$' + command]()\<close>) works on the object and the outside; it
  returns, throws, calls \<open>parser.error\<close>, or never comes back (\<open>None\<close>).
\<close>

type_synonym 'w handler = "zotero \<Rightarrow> 'w io \<Rightarrow> ((failure + unit) \<times> zotero \<times> 'w io) option"

text \<open>
  How the process ends: \<open>Completed\<close> is \<open>run\<close> returning (exit code 0), \<open>Exited n\<close> a call
  of \<open>process.exit(n)\<close> in the program's own code, \<open>ParserExit e\<close> the end of the process
  inside \<open>parser.error\<close>, and \<open>Rejected e\<close> the promise of \<open>run\<close> rejected with \<open>e\<close>.
\<close>

datatype outcome = Completed | Exited nat | ParserExit perror | Rejected jsval

text \<open>Line 172: user id 0 stands for the owner of the key, who is looked up.\<close>

definition resolve_self :: "'w http \<Rightarrow> zotero \<Rightarrow> 'w io \<Rightarrow> (failure + zotero) \<times> 'w io" where
  "resolve_self http z st =
    (if arg_of z ''user_id'' = JNum 0 then
       (case get http z (''/keys/'' @ to_string (arg_of z ''api_key''))
               \<lparr>userOrGroupPrefix = Some False, params = None\<rparr> st of
          (Inl e, st) \<Rightarrow> (Inl e, st)
        | (Inr r, st) \<Rightarrow>
            if rs_body r = JUndefined \<or> rs_body r = JNull
            then (Inl (Thrown (JError ''TypeError'' ''Cannot read property userID'' [])), st)
            else (Inr (set_arg z ''user_id'' (get_prop (rs_body r) ''userID'')), st))
     else (Inr z, st))"

definition run :: "'w http \<Rightarrow> sys \<Rightarrow> option_desc list \<Rightarrow> 'w handler \<Rightarrow> zotero \<Rightarrow> 'w io
    \<Rightarrow> (outcome \<times> zotero \<times> 'w io) option" where
  "run http s options handler z0 st =
    (case resolve s options z0 of
       Inl e \<Rightarrow> Some (ParserExit e, z0, st)
     | Inr z \<Rightarrow>
         (case resolve_self http z st of
            (Inl (Thrown e), st) \<Rightarrow> Some (Rejected e, z, st)
          | (Inl (ParserError e), st) \<Rightarrow> Some (ParserExit e, z, st)
          | (Inr z, st) \<Rightarrow>
              let z = (if arg_of z ''indent'' = JNull then set_arg z ''indent'' (JNum 2) else z)
              in (case handler z st of
                    None \<Rightarrow> None
                  | Some (Inl (Thrown ex), z, st) \<Rightarrow>
                      (case print s z [JStr ''Command execution failed: '', ex] st of
                         (z, st) \<Rightarrow> Some (Exited 1, z, st))
                  | Some (Inl (ParserError e), z, st) \<Rightarrow> Some (ParserExit e, z, st)
                  | Some (Inr u, z, st) \<Rightarrow>
                      if truthy (arg_of z ''out'')
                      then Some (Completed, z, emit (WriteFile (arg_of z ''out'') (output_text z)) st)
                      else Some (Completed, z, st))))"

text \<open>Lines 775 to 778: what the program does with a rejected \<open>run\<close>.\<close>

definition main :: "'w http \<Rightarrow> sys \<Rightarrow> option_desc list \<Rightarrow> 'w handler \<Rightarrow> zotero \<Rightarrow> 'w io
    \<Rightarrow> (outcome \<times> zotero \<times> 'w io) option" where
  "main http s options handler z0 st =
    (case run http s options handler z0 st of
       None \<Rightarrow> None
     | Some (Rejected err, z, st) \<Rightarrow> Some (Exited 1, z, emit (ConsoleError [JStr ''error:'', err]) st)
     | Some r \<Rightarrow> Some r)"

text \<open>Lines 325 to 331: the command \<open>key\<close> (the method \<open>$key\<close>).\<close>

definition cmd_key :: "'w http \<Rightarrow> sys \<Rightarrow> 'w handler" where
  "cmd_key http s z st =
    (case get http z (''/keys/'' @ to_string (arg_of z ''api_key''))
            \<lparr>userOrGroupPrefix = Some False, params = None\<rparr> st of
       (Inl e, st) \<Rightarrow> Some (Inl e, z, st)
     | (Inr r, st) \<Rightarrow> Some (show_z s z (rs_body r) st))"

section \<open>The registered options and a fresh object\<close>

text \<open>
  Lines 61 to 67: the global options, as \<open>addArgument\<close> was given them; argparse
  derives each \<open>dest\<close> from the flag.  Lines 337 and 338: two options of the command
  \<open>collection\<close>, the first one required.
\<close>

definition opt_api_key :: option_desc where
  "opt_api_key = \<lparr>dest = Some ''api_key'', otype = None, choices = None, action = None,
     required = False, store_true = False\<rparr>"

definition opt_config :: option_desc where
  "opt_config = \<lparr>dest = Some ''config'', otype = Some ArgFile, choices = None, action = None,
     required = False, store_true = False\<rparr>"

definition opt_user_id :: option_desc where
  "opt_user_id = \<lparr>dest = Some ''user_id'', otype = Some ArgInteger, choices = None,
     action = None, required = False, store_true = False\<rparr>"

definition opt_group_id :: option_desc where
  "opt_group_id = \<lparr>dest = Some ''group_id'', otype = Some ArgInteger, choices = None,
     action = None, required = False, store_true = False\<rparr>"

definition opt_indent :: option_desc where
  "opt_indent = \<lparr>dest = Some ''indent'', otype = Some ArgInteger, choices = None,
     action = None, required = False, store_true = False\<rparr>"

definition opt_out :: option_desc where
  "opt_out = \<lparr>dest = Some ''out'', otype = None, choices = None, action = None,
     required = False, store_true = False\<rparr>"

definition opt_verbose :: option_desc where
  "opt_verbose = \<lparr>dest = Some ''verbose'', otype = None, choices = None,
     action = None, required = False, store_true = True\<rparr>"

definition global_options :: "option_desc list" where
  "global_options =
    [opt_api_key, opt_config, opt_user_id, opt_group_id, opt_indent, opt_out, opt_verbose]"



text \<open>Lines 47 to 55: the object as constructed, given the command line and the config.\<close>

definition new_zotero :: "(string \<times> jsval) list \<Rightarrow> (string \<times> jsval) list \<Rightarrow> zotero" where
  "new_zotero parsed_args cfg =
    \<lparr>args = parsed_args, output_text = [], config = cfg,
     headers = [(''User-Agent'', JStr ''Zotero-CLI''), (''Zotero-API-Version'', JStr ''3'')]\<rparr>"

section \<open>The command line (run, lines 80 and 99)\<close>

text \<open>
  Modelled from the spec: \<open>this.parser.parseArgs()\<close> of line 80 is code of the package
  argparse, not of this repository.  What is modelled is its check of required
  options, the specification's "if required, raise a MissingRequiredOption error naming
  the option", placed where the program has it: on the command line alone, before any
  other source is read.  \<open>given\<close> holds what the command line gives, by \<open>dest\<close> and
  already converted, the command under \<open>command\<close>; \<open>registered\<close> are the global options
  and the options of that command.  The first required option that is not given ends
  the process.  Otherwise every option gets its value or its default: \<open>false\<close> for a flag
  (action \<open>storeTrue\<close>), \<open>null\<close> for any other option.
\<close>

definition default_value :: "option_desc \<Rightarrow> jsval" where
  "default_value opt = (if store_true opt then JBool False else JNull)"

definition is_missing :: "(string \<times> jsval) list \<Rightarrow> option_desc \<Rightarrow> bool" where
  "is_missing given opt =
    (required opt \<and> (case dest opt of None \<Rightarrow> False | Some d \<Rightarrow> map_of given d = None))"

definition missing_required :: "option_desc list \<Rightarrow> (string \<times> jsval) list \<Rightarrow> string option" where
  "missing_required registered given =
    (case filter (is_missing given) registered of [] \<Rightarrow> None | opt # opts \<Rightarrow> dest opt)"

definition parseArgs :: "option_desc list \<Rightarrow> (string \<times> jsval) list
    \<Rightarrow> perror + (string \<times> jsval) list" where
  "parseArgs registered given =
    (case map_of given ''command'' of
       None \<Rightarrow> Inl (ArgumentRequired ''command'')
     | Some c \<Rightarrow>
         (case missing_required registered given of
            Some d \<Rightarrow> Inl (ArgumentRequired d)
          | None \<Rightarrow>
              Inr ((''command'', c) #
                   concat (map (\<lambda>opt. case dest opt of
                                  None \<Rightarrow> []
                                | Some d \<Rightarrow>
                                    [(d, case map_of given d of
                                           Some v \<Rightarrow> v
                                         | None \<Rightarrow> default_value opt)]) registered))))"

text \<open>
  Line 99: the list that the loop runs over is the list of the actions of the top-level
  parser (the help option first), with the action of the commands replaced by the
  parser of the selected command.  That parser is one object, which \<open>concat\<close> appends as
  it is: it is not the list of the command's options, and it has no \<open>dest\<close>.
\<close>

definition opt_help :: option_desc where
  "opt_help = \<lparr>dest = Some ''help'', otype = None, choices = None, action = None,
     required = False, store_true = False\<rparr>"

definition selected_parser :: option_desc where
  "selected_parser = \<lparr>dest = None, otype = None, choices = None, action = None,
     required = False, store_true = False\<rparr>"

definition line_99 :: "option_desc list \<Rightarrow> option_desc list" where
  "line_99 global = opt_help # global @ [selected_parser]"

text \<open>Lines 57 to 186: \<open>run\<close> from the command line on.\<close>

definition run_cli :: "'w http \<Rightarrow> sys \<Rightarrow> option_desc list \<Rightarrow> option_desc list \<Rightarrow> 'w handler
    \<Rightarrow> (string \<times> jsval) list \<Rightarrow> (string \<times> jsval) list \<Rightarrow> 'w io
    \<Rightarrow> (outcome \<times> zotero \<times> 'w io) option" where
  "run_cli http s global command_options handler given cfg st =
    (case parseArgs (global @ command_options) given of
       Inl e \<Rightarrow> Some (ParserExit e, new_zotero [] [], st)
     | Inr parsed \<Rightarrow> run http s (line_99 global) handler (new_zotero parsed cfg) st)"

section \<open>Notions of the specification and of the statements below\<close>

definition is_dec :: "char \<Rightarrow> bool" where
  "is_dec c = (48 \<le> (of_char c :: nat) \<and> (of_char c :: nat) \<le> 57)"

text \<open>A base-10 integer numeral: an optional sign, then one or more decimal digits.\<close>

definition base10_numeral :: "string \<Rightarrow> bool" where
  "base10_numeral str =
    (let ds = (if take 1 str = ''-'' \<or> take 1 str = ''+'' then drop 1 str else str)
     in ds \<noteq> [] \<and> list_all is_dec ds)"

definition dec_value :: "string \<Rightarrow> int" where
  "dec_value ds = foldl (\<lambda>a c. 10 * a + (int (of_char c) - 48)) 0 ds"

definition base10_value :: "string \<Rightarrow> int" where
  "base10_value str =
    (if take 1 str = ''-'' then - dec_value (drop 1 str)
     else if take 1 str = ''+'' then dec_value (drop 1 str)
     else dec_value str)"

text \<open>Hexadecimal digits and their value; a string that starts with \<open>0x\<close> or \<open>0X\<close>.\<close>

definition is_hex :: "char \<Rightarrow> bool" where
  "is_hex c =
    (let n = of_char c :: nat
     in (48 \<le> n \<and> n \<le> 57) \<or> (97 \<le> n \<and> n \<le> 102) \<or> (65 \<le> n \<and> n \<le> 70))"

definition hex_digit :: "char \<Rightarrow> nat" where
  "hex_digit c =
    (let n = of_char c :: nat
     in if n \<le> 57 then n - 48 else if 97 \<le> n then n - 87 else n - 55)"

definition hex_value :: "string \<Rightarrow> int" where
  "hex_value hs = foldl (\<lambda>a c. 16 * a + int (hex_digit c)) 0 hs"

definition hex_start :: "string \<Rightarrow> bool" where
  "hex_start r = (take 2 r = ''0x'' \<or> take 2 r = ''0X'')"

text \<open>
  What \<open>parseInt\<close> needs of a string: after the white space and one sign, a decimal
  digit, or \<open>0x\<close> and a hexadecimal digit.
\<close>

definition has_integer_prefix :: "string \<Rightarrow> bool" where
  "has_integer_prefix str =
    (let s = skip_white_space str;
         r = (if take 1 s = ''-'' \<or> take 1 s = ''+'' then drop 1 s else s)
     in if take 2 r = ''0x'' \<or> take 2 r = ''0X''
        then (case drop 2 r of [] \<Rightarrow> False | c # cs \<Rightarrow> digit_value 16 c \<noteq> None)
        else (case r of [] \<Rightarrow> False | c # cs \<Rightarrow> digit_value 10 c \<noteq> None))"

text \<open>The first value of a list of sources that is not \<open>undefined\<close>.\<close>

fun first_defined :: "jsval list \<Rightarrow> jsval" where
  "first_defined [] = JUndefined"
| "first_defined (v # vs) = (if v \<noteq> JUndefined then v else first_defined vs)"

text \<open>The value an option ends with, \<open>undefined\<close> when resolution failed.\<close>

definition resolved :: "perror + zotero \<Rightarrow> string \<Rightarrow> jsval" where
  "resolved r d = (case r of Inl e \<Rightarrow> JUndefined | Inr z \<Rightarrow> arg_of z d)"

text \<open>The requests of a trace, and the trace a run ends with.\<close>

definition requests :: "event list \<Rightarrow> http_request list" where
  "requests tr = concat (map (\<lambda>e. case e of HttpRequest rq \<Rightarrow> [rq] | _ \<Rightarrow> []) tr)"

definition trace_of :: "('a \<times> 'b \<times> 'w io) option \<Rightarrow> event list" where
  "trace_of r = (case r of None \<Rightarrow> [] | Some (a, b, st) \<Rightarrow> snd st)"

text \<open>
  Pages for the pagination statements: every page but the last names a next page, the
  last names none, every body is an array of records, and no page has a backoff header.
\<close>

definition links :: "sys \<Rightarrow> response \<Rightarrow> string list" where
  "links s p = (case next_links s p of Inl e \<Rightarrow> [] | Inr l \<Rightarrow> l)"

definition records :: "response \<Rightarrow> jsval list" where
  "records p = (case rs_body p of JArr xs \<Rightarrow> xs | _ \<Rightarrow> [])"

definition page_ok :: "sys \<Rightarrow> response \<Rightarrow> bool" where
  "page_ok s p =
    ((case rs_body p of JArr xs \<Rightarrow> True | _ \<Rightarrow> False) \<and>
     (case next_links s p of Inl e \<Rightarrow> False | Inr l \<Rightarrow> True) \<and>
     header p ''backoff'' = JUndefined)"

fun page_sequence :: "sys \<Rightarrow> response list \<Rightarrow> bool" where
  "page_sequence s [] = False"
| "page_sequence s [p] = (page_ok s p \<and> \<not> has_next (links s p))"
| "page_sequence s (p # q # ps) = (page_ok s p \<and> has_next (links s p) \<and> page_sequence s (q # ps))"





section \<open>Synthetic surroundings for the concrete instances\<close>

text \<open>
  A process with the given environment variables and no files, whose link headers are
  just the URI of the next page; a remote that serves the given pages, one for each
  request; a handler that throws, and one that returns at once.
\<close>

definition sys_with_env :: "(string \<times> string) list \<Rightarrow> sys" where
  "sys_with_env vars =
    \<lparr>env = map_of vars, exists_sync = (\<lambda>v. False), is_file = (\<lambda>v. False),
     json_parse = (\<lambda>x. None), json_stringify = (\<lambda>v i. JStr (to_string v)),
     link_rel_next = (\<lambda>h. Inr [h])\<rparr>"

fun serve_pages :: "response list http" where
  "serve_pages [] rq = (Inl (JError ''RequestError'' ''no page left'' []), [])"
| "serve_pages (p # ps) rq = (Inr p, ps)"

fun reject_with :: "jsval \<Rightarrow> unit http" where
  "reject_with e w rq = (Inl e, w)"

definition throwing_handler :: "jsval \<Rightarrow> 'w handler" where
  "throwing_handler ex z st = Some (Inl (Thrown ex), z, st)"

definition returning_handler :: "'w handler" where
  "returning_handler z st = Some (Inr (), z, st)"

section \<open>Integer options\<close>

text \<open>Decimal and hexadecimal numerals under \<open>parseInt\<close>.\<close>

lemma ws_len_digit: "is_dec c \<Longrightarrow> ws_len (c # cs) = 0"
  by (auto simp: ws_len_def is_dec_def Let_def)

lemma skip_white_space_digit: "is_dec c \<Longrightarrow> skip_white_space (c # cs) = c # cs"
  by (subst skip_white_space.simps) (simp add: ws_len_digit)

lemma digit_value_dec: "is_dec c \<Longrightarrow> digit_value 10 c = Some (of_char c - 48)"
  by (auto simp: digit_value_def is_dec_def Let_def)

lemma takeWhile_dec: "list_all is_dec ds \<Longrightarrow> takeWhile (\<lambda>c. digit_value 10 c \<noteq> None) ds = ds"
  by (induction ds) (auto simp: digit_value_dec)

lemma is_dec_not_sign: "is_dec c \<Longrightarrow> c \<noteq> CHR ''-'' \<and> c \<noteq> CHR ''+'' \<and> c \<noteq> CHR ''x'' \<and> c \<noteq> CHR ''X''"
  by (auto simp: is_dec_def)

lemma math_int_digits:
  assumes "ds \<noteq> []" "list_all is_dec ds"
  shows "math_int ds = Some (digits_value 10 ds)"
proof -
  obtain c cs where ds: "ds = c # cs" using assms(1) by (cases ds) auto
  have c: "is_dec c" and cs: "list_all is_dec cs" using assms(2) ds by auto
  have sk: "skip_white_space ds = ds" using c ds by (simp add: skip_white_space_digit)
  have nosign: "take 1 ds \<noteq> ''-''" "take 1 ds \<noteq> ''+''" using is_dec_not_sign[OF c] ds by auto
  have nohex: "take 2 ds \<noteq> ''0x''" "take 2 ds \<noteq> ''0X''"
    using cs ds is_dec_not_sign by (cases cs; auto)+
  have tw: "takeWhile (\<lambda>c. digit_value 10 c \<noteq> None) ds = ds"
    by (rule takeWhile_dec[OF assms(2)])
  show ?thesis
    unfolding math_int_def Let_def sk
    using nosign nohex assms(1)
    by (simp add: tw del: not_None_eq)
qed


lemma digits_value_dec: "list_all is_dec ds \<Longrightarrow> digits_value 10 ds = dec_value ds"
proof (induction ds rule: rev_induct)
  case Nil
  then show ?case by (simp add: digits_value_def dec_value_def)
next
  case (snoc c ds)
  then have "is_dec c" "digits_value 10 ds = dec_value ds" by auto
  then show ?case
    by (auto simp: digits_value_def dec_value_def digit_value_dec is_dec_def)
qed

lemma skip_white_space_sign:
  "skip_white_space (CHR ''-'' # cs) = CHR ''-'' # cs"
  "skip_white_space (CHR ''+'' # cs) = CHR ''+'' # cs"
  by (subst skip_white_space.simps, simp add: ws_len_def Let_def)+

lemma math_int_signed:
  assumes "ds \<noteq> []" "list_all is_dec ds"
  shows "math_int (CHR ''-'' # ds) = Some (- digits_value 10 ds)"
    and "math_int (CHR ''+'' # ds) = Some (digits_value 10 ds)"
proof -
  obtain c cs where ds: "ds = c # cs" using assms(1) by (cases ds) auto
  have c: "is_dec c" and cs: "list_all is_dec cs" using assms(2) ds by auto
  have nohex: "take 2 ds \<noteq> ''0x''" "take 2 ds \<noteq> ''0X''"
    using cs ds is_dec_not_sign by (cases cs; auto)+
  have tw: "takeWhile (\<lambda>c. digit_value 10 c \<noteq> None) ds = ds"
    by (rule takeWhile_dec[OF assms(2)])
  show "math_int (CHR ''-'' # ds) = Some (- digits_value 10 ds)"
    unfolding math_int_def Let_def using nohex assms(1)
    by (simp add: tw skip_white_space_sign del: not_None_eq)
  show "math_int (CHR ''+'' # ds) = Some (digits_value 10 ds)"
    unfolding math_int_def Let_def using nohex assms(1)
    by (simp add: tw skip_white_space_sign del: not_None_eq)
qed

lemma math_int_numeral:
  assumes "base10_numeral str"
  shows "math_int str = Some (base10_value str)"
proof (cases "take 1 str = ''-'' \<or> take 1 str = ''+''")
  case True
  then obtain c ds where str: "str = c # ds" and c: "c = CHR ''-'' \<or> c = CHR ''+''"
    by (cases str) auto
  from assms str c have ds: "ds \<noteq> []" "list_all is_dec ds"
    by (auto simp: base10_numeral_def)
  from c show ?thesis
    using math_int_signed[OF ds] digits_value_dec[OF ds(2)] str
    by (auto simp: base10_value_def)
next
  case False
  with assms have ds: "str \<noteq> []" "list_all is_dec str"
    by (auto simp: base10_numeral_def)
  from False show ?thesis
    using math_int_digits[OF ds] digits_value_dec[OF ds(2)]
    by (auto simp: base10_value_def)
qed

lemma takeWhile_Nil_case:
  "takeWhile P xs = [] \<longleftrightarrow> \<not> (case xs of [] \<Rightarrow> False | c # cs \<Rightarrow> P c)"
  by (cases xs) auto

lemma math_int_None: "math_int str = None \<longleftrightarrow> \<not> has_integer_prefix str"
proof -
  define r where "r = (let s = skip_white_space str
    in if take 1 s = ''-'' \<or> take 1 s = ''+'' then drop 1 s else s)"
  show ?thesis
  proof (cases "take 2 r = ''0x'' \<or> take 2 r = ''0X''")
    case True
    have "math_int str = None \<longleftrightarrow> takeWhile (\<lambda>c. digit_value 16 c \<noteq> None) (drop 2 r) = []"
      using True unfolding math_int_def r_def Let_def by (simp del: not_None_eq)
    moreover have "has_integer_prefix str \<longleftrightarrow>
        (case drop 2 r of [] \<Rightarrow> False | c # cs \<Rightarrow> digit_value 16 c \<noteq> None)"
      using True unfolding has_integer_prefix_def r_def Let_def by (simp del: not_None_eq)
    ultimately show ?thesis by (simp only: takeWhile_Nil_case)
  next
    case False
    have "math_int str = None \<longleftrightarrow> takeWhile (\<lambda>c. digit_value 10 c \<noteq> None) r = []"
      using False unfolding math_int_def r_def Let_def by (simp del: not_None_eq)
    moreover have "has_integer_prefix str \<longleftrightarrow>
        (case r of [] \<Rightarrow> False | c # cs \<Rightarrow> digit_value 10 c \<noteq> None)"
      using False unfolding has_integer_prefix_def r_def Let_def by (simp del: not_None_eq)
    ultimately show ?thesis by (simp only: takeWhile_Nil_case)
  qed
qed


lemma digit_value_not_dec: "\<not> is_dec c \<Longrightarrow> digit_value 10 c = None"
  by (auto simp: digit_value_def is_dec_def Let_def)

lemma digit_value_hex: "is_hex c \<Longrightarrow> digit_value 16 c = Some (hex_digit c)"
  by (auto simp: digit_value_def is_hex_def hex_digit_def Let_def)

lemma digit_value_not_hex: "\<not> is_hex c \<Longrightarrow> digit_value 16 c = None"
  by (auto simp: digit_value_def is_hex_def Let_def)

lemma digits_value_hex: "list_all is_hex hs \<Longrightarrow> digits_value 16 hs = hex_value hs"
proof (induction hs rule: rev_induct)
  case Nil
  then show ?case by (simp add: digits_value_def hex_value_def)
next
  case (snoc c hs)
  then have "is_hex c" "digits_value 16 hs = hex_value hs" by auto
  then show ?case
    by (simp add: digits_value_def hex_value_def digit_value_hex)
qed

lemma takeWhile_run:
  assumes "list_all (\<lambda>c. f c \<noteq> None) ds"
    and "case rest of [] \<Rightarrow> True | c # cs \<Rightarrow> f c = None"
  shows "takeWhile (\<lambda>c. f c \<noteq> None) (ds @ rest) = ds"
proof -
  have "takeWhile (\<lambda>c. f c \<noteq> None) rest = []"
    using assms(2) by (cases rest) auto
  moreover have "\<forall>c\<in>set ds. f c \<noteq> None"
    using assms(1) by (simp add: list_all_iff del: not_None_eq)
  ultimately show ?thesis by (simp add: takeWhile_append2 del: not_None_eq)
qed

lemma math_int_unsigned:
  "math_int str =
    (let s = skip_white_space str;
         r = (if take 1 s = ''-'' \<or> take 1 s = ''+'' then drop 1 s else s);
         R = (if hex_start r then 16 else 10);
         z = takeWhile (\<lambda>c. digit_value R c \<noteq> None) (if hex_start r then drop 2 r else r)
     in if z = [] then None
        else Some (if take 1 s = ''-'' then - digits_value R z else digits_value R z))"
  by (simp add: math_int_def hex_start_def Let_def del: not_None_eq)

lemma sign_split:
  assumes "sg \<in> set [[], ''-'', ''+'']" and "case body of [] \<Rightarrow> False | c # cs \<Rightarrow> is_hex c"
  shows "(if take 1 (sg @ body) = ''-'' \<or> take 1 (sg @ body) = ''+''
          then drop 1 (sg @ body) else sg @ body) = body"
    and "(take 1 (sg @ body) = ''-'') = (sg = ''-'')"
proof -
  obtain c cs where b: "body = c # cs" "is_hex c" using assms(2) by (cases body) auto
  have n: "c \<noteq> CHR ''-''" "c \<noteq> CHR ''+''" using b(2) by (auto simp: is_hex_def)
  show "(if take 1 (sg @ body) = ''-'' \<or> take 1 (sg @ body) = ''+''
          then drop 1 (sg @ body) else sg @ body) = body"
    using assms(1) b(1) n by auto
  show "(take 1 (sg @ body) = ''-'') = (sg = ''-'')"
    using assms(1) b(1) n by auto
qed

lemma math_int_body:
  assumes "skip_white_space str = sg @ body" and "sg \<in> set [[], ''-'', ''+'']"
    and "case body of [] \<Rightarrow> False | c # cs \<Rightarrow> is_hex c"
  shows "math_int str =
    (if takeWhile (\<lambda>c. digit_value (if hex_start body then 16 else 10) c \<noteq> None)
          (if hex_start body then drop 2 body else body) = [] then None
     else Some (if sg = ''-''
       then - digits_value (if hex_start body then 16 else 10)
            (takeWhile (\<lambda>c. digit_value (if hex_start body then 16 else 10) c \<noteq> None)
              (if hex_start body then drop 2 body else body))
       else digits_value (if hex_start body then 16 else 10)
            (takeWhile (\<lambda>c. digit_value (if hex_start body then 16 else 10) c \<noteq> None)
              (if hex_start body then drop 2 body else body))))"
proof -
  have a: "(if take 1 (sg @ body) = ''-'' \<or> take 1 (sg @ body) = ''+''
          then drop 1 (sg @ body) else sg @ body) = body"
    and b: "(take 1 (sg @ body) = ''-'') = (sg = ''-'')"
    by (rule sign_split [OF assms(2,3)])+
  show ?thesis
    unfolding math_int_unsigned assms(1) Let_def
    unfolding a
    unfolding b
    by (rule refl)
qed

lemma is_dec_is_hex: "is_dec c \<Longrightarrow> is_hex c"
  by (auto simp: is_dec_def is_hex_def)

lemma math_int_decimal:
  assumes s: "skip_white_space str = sg @ ds @ rest"
    and sg: "sg \<in> set [[], ''-'', ''+'']"
    and ds: "ds \<noteq> []" "list_all is_dec ds"
    and rest: "case rest of [] \<Rightarrow> True | c # cs \<Rightarrow> \<not> is_dec c"
    and nohex: "\<not> hex_start (ds @ rest)"
  shows "math_int str = Some (if sg = ''-'' then - dec_value ds else dec_value ds)"
proof -
  have b: "case ds @ rest of [] \<Rightarrow> False | c # cs \<Rightarrow> is_hex c"
    using ds by (cases ds) (auto simp: is_dec_is_hex)
  have d: "list_all (\<lambda>c. digit_value 10 c \<noteq> None) ds"
    using ds(2) by (induction ds) (auto simp: digit_value_dec)
  have r: "case rest of [] \<Rightarrow> True | c # cs \<Rightarrow> digit_value 10 c = None"
    using rest by (cases rest) (auto simp: digit_value_not_dec)
  have tw: "takeWhile (\<lambda>c. digit_value 10 c \<noteq> None) (ds @ rest) = ds"
    by (rule takeWhile_run [OF d r])
  show ?thesis
    unfolding math_int_body [OF s sg b]
    using nohex ds(1) by (simp add: tw digits_value_dec [OF ds(2)] del: not_None_eq)
qed

lemma math_int_hexadecimal:
  assumes s: "skip_white_space str = sg @ px @ hs @ rest"
    and sg: "sg \<in> set [[], ''-'', ''+'']"
    and px: "px \<in> set [''0x'', ''0X'']"
    and hs: "hs \<noteq> []" "list_all is_hex hs"
    and rest: "case rest of [] \<Rightarrow> True | c # cs \<Rightarrow> \<not> is_hex c"
  shows "math_int str = Some (if sg = ''-'' then - hex_value hs else hex_value hs)"
proof -
  have b: "case px @ hs @ rest of [] \<Rightarrow> False | c # cs \<Rightarrow> is_hex c"
    using px by (auto simp: is_hex_def)
  have h: "hex_start (px @ hs @ rest) = True" "drop 2 (px @ hs @ rest) = hs @ rest"
    using px by (auto simp: hex_start_def)
  have d: "list_all (\<lambda>c. digit_value 16 c \<noteq> None) hs"
    using hs(2) by (induction hs) (auto simp: digit_value_hex)
  have r: "case rest of [] \<Rightarrow> True | c # cs \<Rightarrow> digit_value 16 c = None"
    using rest by (cases rest) (auto simp: digit_value_not_hex)
  have tw: "takeWhile (\<lambda>c. digit_value 16 c \<noteq> None) (hs @ rest) = hs"
    by (rule takeWhile_run [OF d r])
  show ?thesis
    unfolding math_int_body [OF s sg b]
    unfolding h if_True tw
    using hs(1) by (simp add: digits_value_hex [OF hs(2)])
qed

lemma to_number_small: "\<bar>n\<bar> < 2 ^ 53 \<Longrightarrow> to_number n = JNum n"
  by (auto simp: to_number_def round_double_def)

lemma to_number_not_NaN: "to_number n \<noteq> JNaN"
  by (simp add: to_number_def split: option.splits)

lemma coerce_integer:
  assumes "otype opt = Some ArgInteger"
  shows "coerce s opt d (JStr str) =
    (case math_int str of
       None \<Rightarrow> Inl (MustBeNumeric d (JStr str))
     | Some n \<Rightarrow> Inr (to_number n))"
  using assms
  by (simp add: coerce_def parseInt_def parseInt_str_def to_number_not_NaN split: option.splits)

text \<open>
  Claim C10, as the code has it.  For an option of type \<open>arg.integer\<close> whose raw value is
  a string, resolution converts the value with \<open>parseInt\<close> and no radix.  After leading
  white space and one sign, a run of decimal digits followed by anything but a decimal
  digit is read as the value of that run, and what follows is ignored; after \<open>0x\<close> or
  \<open>0X\<close>, a run of hexadecimal digits is read in radix 16.  What is stored is the number
  value of the integer read, its nearest double: the integer itself below \<open>2^53\<close>.
  Resolution fails with "must be numeric" exactly when the string, after the white
  space and the sign, starts with no decimal digit (or, after \<open>0x\<close>, with no
  hexadecimal digit).  In particular a base-10 numeral resolves to the number value of
  its value.
\<close>

theorem integer_coercion:
  assumes "otype opt = Some ArgInteger"
  shows "(skip_white_space str = sg @ ds @ rest \<and> sg \<in> set [[], ''-'', ''+''] \<and> ds \<noteq> [] \<and>
          list_all is_dec ds \<and> (case rest of [] \<Rightarrow> True | c # cs \<Rightarrow> \<not> is_dec c) \<and>
          \<not> hex_start (ds @ rest) \<longrightarrow>
            coerce s opt d (JStr str) =
              Inr (to_number (if sg = ''-'' then - dec_value ds else dec_value ds))) \<and>
         (skip_white_space str = sg @ px @ hs @ rest \<and> sg \<in> set [[], ''-'', ''+''] \<and>
          px \<in> set [''0x'', ''0X''] \<and> hs \<noteq> [] \<and> list_all is_hex hs \<and>
          (case rest of [] \<Rightarrow> True | c # cs \<Rightarrow> \<not> is_hex c) \<longrightarrow>
            coerce s opt d (JStr str) =
              Inr (to_number (if sg = ''-'' then - hex_value hs else hex_value hs))) \<and>
         (coerce s opt d (JStr str) = Inl (MustBeNumeric d (JStr str)) \<longleftrightarrow>
            \<not> has_integer_prefix str) \<and>
         (base10_numeral str \<longrightarrow>
            coerce s opt d (JStr str) = Inr (to_number (base10_value str))) \<and>
         (\<bar>n\<bar> < 2 ^ 53 \<longrightarrow> to_number n = JNum n)"
proof (intro conjI impI)
  note c = coerce_integer [OF assms]
  show "coerce s opt d (JStr str) =
      Inr (to_number (if sg = ''-'' then - dec_value ds else dec_value ds))"
    if "skip_white_space str = sg @ ds @ rest \<and> sg \<in> set [[], ''-'', ''+''] \<and> ds \<noteq> [] \<and>
          list_all is_dec ds \<and> (case rest of [] \<Rightarrow> True | c # cs \<Rightarrow> \<not> is_dec c) \<and>
          \<not> hex_start (ds @ rest)"
    using math_int_decimal [of str sg ds rest] that by (simp add: c)
  show "coerce s opt d (JStr str) =
      Inr (to_number (if sg = ''-'' then - hex_value hs else hex_value hs))"
    if "skip_white_space str = sg @ px @ hs @ rest \<and> sg \<in> set [[], ''-'', ''+''] \<and>
          px \<in> set [''0x'', ''0X''] \<and> hs \<noteq> [] \<and> list_all is_hex hs \<and>
          (case rest of [] \<Rightarrow> True | c # cs \<Rightarrow> \<not> is_hex c)"
    using math_int_hexadecimal [of str sg px hs rest] that by (simp add: c)
  show "(coerce s opt d (JStr str) = Inl (MustBeNumeric d (JStr str))) = (\<not> has_integer_prefix str)"
    using math_int_None [of str] by (cases "math_int str") (auto simp: c)
  show "coerce s opt d (JStr str) = Inr (to_number (base10_value str))" if "base10_numeral str"
    using math_int_numeral [OF that] by (simp add: c)
  show "to_number n = JNum n" if "\<bar>n\<bar> < 2 ^ 53"
    using that by (rule to_number_small)
qed

text \<open>
  The statement for \<open>--indent\<close>: at \<open>12abc\<close> after a blank, at \<open>-0x1Fg\<close>, at \<open>abc\<close> and at
  \<open>-42\<close>.
\<close>

theorem integer_coercion_witness:
  "otype opt_indent = Some ArgInteger \<and>
   coerce (sys_with_env []) opt_indent ''indent'' (JStr '' 12abc'') = Inr (JNum 12) \<and>
   coerce (sys_with_env []) opt_indent ''indent'' (JStr ''-0x1Fg'') = Inr (JNum (- 31)) \<and>
   \<not> has_integer_prefix ''abc'' \<and>
   coerce (sys_with_env []) opt_indent ''indent'' (JStr ''abc'') =
     Inl (MustBeNumeric ''indent'' (JStr ''abc'')) \<and>
   base10_numeral ''-42'' \<and>
   coerce (sys_with_env []) opt_indent ''indent'' (JStr ''-42'') = Inr (JNum (- 42))"
proof -
  have t: "otype opt_indent = Some ArgInteger" by (simp add: opt_indent_def)
  have s1: "skip_white_space '' 12abc'' = [] @ ''12'' @ ''abc''" by code_simp
  have s2: "skip_white_space ''-0x1Fg'' = ''-'' @ ''0x'' @ ''1F'' @ ''g''" by code_simp
  have d: "list_all is_dec ''12''" "\<not> is_dec CHR ''a''" "\<not> hex_start (''12'' @ ''abc'')"
    "list_all is_hex ''1F''" "\<not> is_hex CHR ''g''"
    by (simp_all add: is_dec_def is_hex_def hex_start_def)
  have v: "dec_value ''12'' = 12" "hex_value ''1F'' = 31" "base10_value ''-42'' = - 42"
    by (simp_all add: dec_value_def hex_value_def hex_digit_def base10_value_def)
  have n: "base10_numeral ''-42''" by (simp add: base10_numeral_def is_dec_def)
  have q: "\<not> has_integer_prefix ''abc''"
    by (subst has_integer_prefix_def, subst skip_white_space.simps)
       (simp add: ws_len_def digit_value_def)
  have k: "to_number 12 = JNum 12" "to_number (- 31) = JNum (- 31)" "to_number (- 42) = JNum (- 42)"
    using integer_coercion [OF t, where n = 12 and s = "sys_with_env []"]
      integer_coercion [OF t, where n = "- 31" and s = "sys_with_env []"]
      integer_coercion [OF t, where n = "- 42" and s = "sys_with_env []"]
    by simp_all
  have a: "coerce (sys_with_env []) opt_indent ''indent'' (JStr '' 12abc'') = Inr (JNum 12)"
    using integer_coercion [OF t, where str = "'' 12abc''" and sg = "[]" and ds = "''12''" and
        rest = "''abc''" and s = "sys_with_env []" and d = "''indent''"] s1 d v k
    by simp
  have b: "coerce (sys_with_env []) opt_indent ''indent'' (JStr ''-0x1Fg'') = Inr (JNum (- 31))"
    using integer_coercion [OF t, where str = "''-0x1Fg''" and sg = "''-''" and px = "''0x''" and
        hs = "''1F''" and rest = "''g''" and s = "sys_with_env []" and d = "''indent''"] s2 d v k
    by simp
  have c: "coerce (sys_with_env []) opt_indent ''indent'' (JStr ''abc'') =
      Inl (MustBeNumeric ''indent'' (JStr ''abc''))"
    using integer_coercion [OF t, where str = "''abc''" and s = "sys_with_env []" and
        d = "''indent''"] q
    by simp
  have e: "coerce (sys_with_env []) opt_indent ''indent'' (JStr ''-42'') = Inr (JNum (- 42))"
    using integer_coercion [OF t, where str = "''-42''" and s = "sys_with_env []" and
        d = "''indent''"] n v k
    by simp
  show ?thesis using t a b c e n q by simp
qed

text \<open>
  The claim as written fails: \<open>ZOTERO_INDENT=12abc\<close> and \<open>ZOTERO_INDENT=0x1F\<close> are not
  base-10 numerals, and they resolve to 12 and to 31 with no error; and the numeral
  \<open>9007199254740993\<close> resolves to 9007199254740992.
\<close>

theorem integer_coercion_counterexample:
  "\<not> base10_numeral ''12abc'' \<and> \<not> base10_numeral ''0x1F'' \<and>
   resolve_option (sys_with_env [(''ZOTERO_INDENT'', ''12abc'')]) opt_indent
     (new_zotero [(''command'', JStr ''items''), (''indent'', JNull)] []) =
   Inr (new_zotero [(''command'', JStr ''items''), (''indent'', JNum 12)] []) \<and>
   resolve_option (sys_with_env [(''ZOTERO_INDENT'', ''0x1F'')]) opt_indent
     (new_zotero [(''command'', JStr ''items''), (''indent'', JNull)] []) =
   Inr (new_zotero [(''command'', JStr ''items''), (''indent'', JNum 31)] []) \<and>
   base10_numeral ''9007199254740993'' \<and>
   resolve_option (sys_with_env [(''ZOTERO_INDENT'', ''9007199254740993'')]) opt_indent
     (new_zotero [(''command'', JStr ''items''), (''indent'', JNull)] []) =
   Inr (new_zotero [(''command'', JStr ''items''), (''indent'', JNum 9007199254740992)] [])"
  by code_simp

section \<open>Flags\<close>

text \<open>
  Claim C9.  The command line \<open>--api-key K --user-id 1 items\<close> does not give
  \<open>--verbose\<close>, and \<open>parseArgs\<close> stores \<open>false\<close> for it, the default of a flag.  The loop
  reads the other sources only for an option whose parsed value is \<open>null\<close> (line 104), so
  it passes the flag by: with \<open>ZOTERO_VERBOSE=true\<close>, with \<open>ZOTERO_VERBOSE=on\<close>, and
  with \<open>verbose = "yes"\<close> in the config file, the option stays \<open>false\<close>, and
  \<open>ZOTERO_VERBOSE=maybe\<close> raises no error: resolution succeeds, and the run of a
  command completes.  The table of lines 147 to 158 is never consulted.
\<close>

theorem flag_stays_false:
  "parseArgs global_options
     [(''command'', JStr ''items''), (''api_key'', JStr ''K''), (''user_id'', JNum 1)] =
   Inr [(''command'', JStr ''items''), (''api_key'', JStr ''K''), (''config'', JNull),
        (''user_id'', JNum 1), (''group_id'', JNull), (''indent'', JNull), (''out'', JNull),
        (''verbose'', JBool False)] \<and>
   resolved (resolve (sys_with_env [(''ZOTERO_VERBOSE'', ''true'')]) (line_99 global_options)
     (new_zotero [(''command'', JStr ''items''), (''api_key'', JStr ''K''), (''config'', JNull),
        (''user_id'', JNum 1), (''group_id'', JNull), (''indent'', JNull), (''out'', JNull),
        (''verbose'', JBool False)] [])) ''verbose'' = JBool False \<and>
   resolved (resolve (sys_with_env [(''ZOTERO_VERBOSE'', ''on'')]) (line_99 global_options)
     (new_zotero [(''command'', JStr ''items''), (''api_key'', JStr ''K''), (''config'', JNull),
        (''user_id'', JNum 1), (''group_id'', JNull), (''indent'', JNull), (''out'', JNull),
        (''verbose'', JBool False)] [])) ''verbose'' = JBool False \<and>
   resolved (resolve (sys_with_env []) (line_99 global_options)
     (new_zotero [(''command'', JStr ''items''), (''api_key'', JStr ''K''), (''config'', JNull),
        (''user_id'', JNum 1), (''group_id'', JNull), (''indent'', JNull), (''out'', JNull),
        (''verbose'', JBool False)] [(''verbose'', JStr ''yes'')])) ''verbose'' = JBool False \<and>
   resolved (resolve (sys_with_env [(''ZOTERO_VERBOSE'', ''maybe'')]) (line_99 global_options)
     (new_zotero [(''command'', JStr ''items''), (''api_key'', JStr ''K''), (''config'', JNull),
        (''user_id'', JNum 1), (''group_id'', JNull), (''indent'', JNull), (''out'', JNull),
        (''verbose'', JBool False)] [])) ''verbose'' = JBool False \<and>
   run_cli serve_pages (sys_with_env [(''ZOTERO_VERBOSE'', ''maybe'')]) global_options []
     returning_handler
     [(''command'', JStr ''items''), (''api_key'', JStr ''K''), (''user_id'', JNum 1)] []
     ([], []) =
   Some (Completed,
     \<lparr>args = [(''command'', JStr ''items''), (''api_key'', JStr ''K''), (''config'', JNull),
        (''user_id'', JNum 1), (''group_id'', JNull), (''indent'', JNum 2), (''out'', JNull),
        (''verbose'', JBool False)],
      output_text = [], config = [(''user-id'', JNum 1)],
      headers = [(''User-Agent'', JStr ''Zotero-CLI''), (''Zotero-API-Version'', JStr ''3''),
        (''Zotero-API-Key'', JStr ''K'')]\<rparr>,
     ([], []))"
  by code_simp

section \<open>Precedence of the sources\<close>

text \<open>
  Claim C1, as the code has it.  For every option that the loop resolves (it has a
  \<open>dest\<close> other than \<open>help\<close> and \<open>config\<close>): a value of the command line, that is any
  value but \<open>null\<close>, stays as it is.  Otherwise the raw value is the first defined one
  of three sources, with no merging, in an order that depends on whether \<open>--config\<close> was
  given: with \<open>--config\<close>, the command's table of the config file, then the top level of
  the config file, then the environment; without it, the environment, then the command's
  table, then the top level.  The value found is converted and stored; when no source
  has one the option is left as it was.  The value of the environment is that of
  \<open>ZOTERO_CLI_\<close> and the name in capitals when it is set and not empty, else that of
  \<open>ZOTERO_\<close> and the name in capitals.
\<close>

theorem source_precedence:
  assumes "dest opt = Some d" and "d \<noteq> []" and "d \<notin> set [''help'', ''config'']"
  shows "(arg_of z d \<noteq> JNull \<longrightarrow> resolve_option s opt z = Inr z) \<and>
         (arg_of z d = JNull \<longrightarrow>
            resolve_option s opt z =
              (let value = first_defined
                     (if truthy (arg_of z ''config'')
                      then [command_section_value z d, global_value z d, env_value s d]
                      else [env_value s d, command_section_value z d, global_value z d])
               in if value = JUndefined then Inr z
                  else (case coerce s opt d value of
                          Inl e \<Rightarrow> Inl e
                        | Inr v \<Rightarrow> Inr (set_arg z d v)))) \<and>
         env_value s d =
           (case env s (''ZOTERO_CLI_'' @ to_upper d) of
              Some v \<Rightarrow> if v \<noteq> [] then JStr v else env_var s (''ZOTERO_'' @ to_upper d)
            | None \<Rightarrow> env_var s (''ZOTERO_'' @ to_upper d))"
proof -
  have e: "env_value s d =
      (case env s (''ZOTERO_CLI_'' @ to_upper d) of
         Some v \<Rightarrow> if v \<noteq> [] then JStr v else env_var s (''ZOTERO_'' @ to_upper d)
       | None \<Rightarrow> env_var s (''ZOTERO_'' @ to_upper d))"
    by (simp add: env_value_def env_var_def js_or_def split: option.splits)
  have l: "lookup_value s z d =
      first_defined
        (if truthy (arg_of z ''config'')
         then [command_section_value z d, global_value z d, env_value s d]
         else [env_value s d, command_section_value z d, global_value z d])"
    by (simp add: lookup_value_def config_value_def Let_def)
  have r: "(arg_of z d \<noteq> JNull \<longrightarrow> resolve_option s opt z = Inr z) \<and>
         (arg_of z d = JNull \<longrightarrow>
            resolve_option s opt z =
              (let value = lookup_value s z d
               in if value = JUndefined then Inr z
                  else (case coerce s opt d value of
                          Inl e \<Rightarrow> Inl e
                        | Inr v \<Rightarrow> Inr (set_arg z d v))))"
    using assms by (simp add: resolve_option_def Let_def)
  show ?thesis
    using r e unfolding l by blast
qed

text \<open>
  The statement for \<open>--api-key\<close> with all three lower sources holding a value: with
  \<open>--config\<close> the command's table wins, and a value of the command line stays.
\<close>

theorem source_precedence_witness:
  "dest opt_api_key = Some ''api_key'' \<and>
   resolved (resolve_option (sys_with_env [(''ZOTERO_API_KEY'', ''E'')]) opt_api_key
     (new_zotero [(''command'', JStr ''items''), (''config'', JStr ''my.toml''), (''api_key'', JNull)]
        [(''api-key'', JStr ''G''), (''items'', JObj [(''api-key'', JStr ''C'')])])) ''api_key'' = JStr ''C'' \<and>
   resolved (resolve_option (sys_with_env [(''ZOTERO_API_KEY'', ''E'')]) opt_api_key
     (new_zotero [(''command'', JStr ''items''), (''config'', JStr ''my.toml''), (''api_key'', JStr ''X'')]
        [(''api-key'', JStr ''G''), (''items'', JObj [(''api-key'', JStr ''C'')])])) ''api_key'' = JStr ''X''"
proof -
  define s where "s = sys_with_env [(''ZOTERO_API_KEY'', ''E'')]"
  define cfg where "cfg = [(''api-key'', JStr ''G''), (''items'', JObj [(''api-key'', JStr ''C'')])]"
  define z1 where "z1 = new_zotero [(''command'', JStr ''items''), (''config'', JStr ''my.toml''),
    (''api_key'', JNull)] cfg"
  define z2 where "z2 = new_zotero [(''command'', JStr ''items''), (''config'', JStr ''my.toml''),
    (''api_key'', JStr ''X'')] cfg"
  have d: "dest opt_api_key = Some ''api_key''" by (simp add: opt_api_key_def)
  have n: "''api_key'' \<noteq> []" "''api_key'' \<notin> set [''help'', ''config'']" by simp_all
  have a1: "arg_of z1 ''api_key'' = JNull" "truthy (arg_of z1 ''config'')"
    by (simp_all add: z1_def arg_of_def new_zotero_def)
  have a2: "arg_of z2 ''api_key'' = JStr ''X''"
    by (simp add: z2_def arg_of_def new_zotero_def)
  have c: "command_section_value z1 ''api_key'' = JStr ''C''"
    unfolding z1_def cfg_def by code_simp
  have k: "coerce s opt_api_key ''api_key'' (JStr ''C'') = Inr (JStr ''C'')"
    by (simp add: coerce_def opt_api_key_def)
  have "resolve_option s opt_api_key z1 = Inr (set_arg z1 ''api_key'' (JStr ''C''))"
    using source_precedence [OF d n, of z1 s] a1 c k by (simp add: Let_def)
  moreover have "resolve_option s opt_api_key z2 = Inr z2"
    using source_precedence [OF d n, of z2 s] a2 by simp
  ultimately show ?thesis
    using d a2 unfolding s_def z1_def z2_def cfg_def
    by (simp add: resolved_def arg_of_def set_arg_def new_zotero_def)
qed

text \<open>
  The claim as written fails on the order of the lower sources.  With \<open>--config\<close> and
  no table of the command, the top level of the config file (\<open>G\<close>) wins over the
  environment (\<open>E\<close>); without \<open>--config\<close>, the environment (\<open>E\<close>) wins over the command's
  table of the config file that was picked up (\<open>C\<close>).
\<close>

theorem source_precedence_counterexample:
  "resolved (resolve_option (sys_with_env [(''ZOTERO_API_KEY'', ''E'')]) opt_api_key
     (new_zotero [(''command'', JStr ''items''), (''config'', JStr ''my.toml''), (''api_key'', JNull)]
        [(''api-key'', JStr ''G'')])) ''api_key'' = JStr ''G'' \<and>
   resolved (resolve_option (sys_with_env [(''ZOTERO_API_KEY'', ''E'')]) opt_api_key
     (new_zotero [(''command'', JStr ''items''), (''config'', JNull), (''api_key'', JNull)]
        [(''items'', JObj [(''api-key'', JStr ''C'')])])) ''api_key'' = JStr ''E''"
  by code_simp

section \<open>The checks after the loop\<close>

text \<open>
  Claim C4, as the code has it.  When the loop over the options has succeeded and left
  an API key: if the user id and the group id are both set (not \<open>null\<close>) or both unset,
  the run ends in the parser's error "You must provide exactly one of --user-id or
  --group-id", whatever the command handler is and with nothing done to the outside;
  if exactly one of them is set, resolution succeeds.  (The API key is checked first:
  without one the error is "no API key provided".)
\<close>

theorem scope_conflict:
  assumes "resolve_options s options (override_config (z0\<lparr>output_text := []\<rparr>)) = Inr z"
    and "truthy (arg_of z ''api_key'')"
  shows "((arg_of z ''user_id'' = JNull) = (arg_of z ''group_id'' = JNull) \<longrightarrow>
            resolve s options z0 = Inl ExactlyOneOfUserGroup \<and>
            run http s options handler z0 st = Some (ParserExit ExactlyOneOfUserGroup, z0, st)) \<and>
         ((arg_of z ''user_id'' = JNull) \<noteq> (arg_of z ''group_id'' = JNull) \<longrightarrow>
            (\<exists>z'. resolve s options z0 = Inr z' \<and> args z' = args z))"
proof -
  have a: "arg_of (z\<lparr>headers := h\<rparr>) d = arg_of z d" for h d
    by (simp add: arg_of_def)
  have r: "resolve s options z0 =
      (if (arg_of z ''user_id'' = JNull) = (arg_of z ''group_id'' = JNull)
       then Inl ExactlyOneOfUserGroup
       else Inr (z\<lparr>headers := AList.update ''Zotero-API-Key'' (arg_of z ''api_key'') (headers z)\<rparr>))"
    using assms by (auto simp: resolve_def Let_def a)
  show ?thesis
    by (auto simp: r run_def)
qed

text \<open>
  The statement for a command line with an API key: no id and both ids end in the
  error, one id resolves.
\<close>

theorem scope_conflict_witness:
  "resolve (sys_with_env []) global_options
     (new_zotero [(''command'', JStr ''items''), (''api_key'', JStr ''K''), (''config'', JNull),
        (''user_id'', JNull), (''group_id'', JNull), (''indent'', JNull), (''out'', JNull),
        (''verbose'', JBool False)] []) = Inl ExactlyOneOfUserGroup \<and>
   resolve (sys_with_env []) global_options
     (new_zotero [(''command'', JStr ''items''), (''api_key'', JStr ''K''), (''config'', JNull),
        (''user_id'', JNum 1), (''group_id'', JNum 2), (''indent'', JNull), (''out'', JNull),
        (''verbose'', JBool False)] []) = Inl ExactlyOneOfUserGroup \<and>
   resolved (resolve (sys_with_env []) global_options
     (new_zotero [(''command'', JStr ''items''), (''api_key'', JStr ''K''), (''config'', JNull),
        (''user_id'', JNum 1), (''group_id'', JNull), (''indent'', JNull), (''out'', JNull),
        (''verbose'', JBool False)] [])) ''user_id'' = JNum 1"
proof -
  define s where "s = sys_with_env []"
  define mk where "mk u g = new_zotero [(''command'', JStr ''items''), (''api_key'', JStr ''K''),
    (''config'', JNull), (''user_id'', u), (''group_id'', g), (''indent'', JNull), (''out'', JNull),
    (''verbose'', JBool False)] []" for u g
  have l1: "resolve_options s global_options (override_config (mk JNull JNull\<lparr>output_text := []\<rparr>))
      = Inr (mk JNull JNull)"
    unfolding s_def mk_def by code_simp
  have l2: "resolve_options s global_options (override_config (mk (JNum 1) (JNum 2)\<lparr>output_text := []\<rparr>))
      = Inr ((mk (JNum 1) (JNum 2))\<lparr>config := [(''user-id'', JNum 1), (''group-id'', JNum 2)]\<rparr>)"
    unfolding s_def mk_def by code_simp
  have l3: "resolve_options s global_options (override_config (mk (JNum 1) JNull\<lparr>output_text := []\<rparr>))
      = Inr ((mk (JNum 1) JNull)\<lparr>config := [(''user-id'', JNum 1)]\<rparr>)"
    unfolding s_def mk_def by code_simp
  have k: "truthy (arg_of (mk u g) ''api_key'')" "truthy (arg_of ((mk u g)\<lparr>config := c\<rparr>) ''api_key'')"
    "arg_of (mk u g) ''user_id'' = u" "arg_of (mk u g) ''group_id'' = g"
    "arg_of ((mk u g)\<lparr>config := c\<rparr>) ''user_id'' = u" "arg_of ((mk u g)\<lparr>config := c\<rparr>) ''group_id'' = g"
    for u g c
    by (simp_all add: mk_def arg_of_def new_zotero_def)
  have "resolve s global_options (mk JNull JNull) = Inl ExactlyOneOfUserGroup"
    using scope_conflict [OF l1 k(1), of serve_pages "throwing_handler JNull" "([], [])"] by (simp add: k)
  moreover have "resolve s global_options (mk (JNum 1) (JNum 2)) = Inl ExactlyOneOfUserGroup"
    using scope_conflict [OF l2 k(2), of serve_pages "throwing_handler JNull" "([], [])"] by (simp add: k)
  moreover have "resolved (resolve s global_options (mk (JNum 1) JNull)) ''user_id'' = JNum 1"
  proof -
    obtain z' where z': "resolve s global_options (mk (JNum 1) JNull) = Inr z'"
        "args z' = args ((mk (JNum 1) JNull)\<lparr>config := [(''user-id'', JNum 1)]\<rparr>)"
      using scope_conflict [OF l3 k(2), of serve_pages "throwing_handler JNull" "([], [])"]
      by (auto simp: k)
    have "arg_of z' ''user_id'' = arg_of ((mk (JNum 1) JNull)\<lparr>config := [(''user-id'', JNum 1)]\<rparr>) ''user_id''"
      using z'(2) by (simp add: arg_of_def)
    then show ?thesis by (simp add: z'(1) resolved_def k)
  qed
  ultimately show ?thesis
    unfolding s_def mk_def by simp
qed

text \<open>
  The claim as written fails when no API key is resolved: with no id and no key, and
  with both ids and no key, the error is "no API key provided".
\<close>

theorem scope_conflict_counterexample:
  "resolve (sys_with_env []) global_options
     (new_zotero [(''command'', JStr ''items''), (''api_key'', JNull), (''config'', JNull),
        (''user_id'', JNull), (''group_id'', JNull), (''indent'', JNull), (''out'', JNull),
        (''verbose'', JBool False)] []) = Inl NoApiKey \<and>
   resolve (sys_with_env []) global_options
     (new_zotero [(''command'', JStr ''items''), (''api_key'', JNull), (''config'', JNull),
        (''user_id'', JNum 1), (''group_id'', JNum 2), (''indent'', JNull), (''out'', JNull),
        (''verbose'', JBool False)] []) = Inl NoApiKey"
  by code_simp

section \<open>Required options and the API key\<close>














section \<open>Writes with an expected version\<close>

lemma requests_append: "requests (xs @ ys) = requests xs @ requests ys"
  by (simp add: requests_def)

lemma requests_simps:
  "requests [] = []"
  "requests (HttpRequest rq # tr) = rq # requests tr"
  "requests (ConsoleError xs # tr) = requests tr"
  "requests (ConsoleLog xs # tr) = requests tr"
  "requests (Sleep k # tr) = requests tr"
  "requests (WriteFile f x # tr) = requests tr"
  by (simp_all add: requests_def)

lemma request_result:
  "request http rq (w, tr) =
    (case fst (http w rq) of Inl e \<Rightarrow> Inl (Thrown e) | Inr r \<Rightarrow> Inr r,
     (snd (http w rq), tr @ [HttpRequest rq]))"
  by (cases "http w rq") (auto simp: request_def split: sum.splits)

text \<open>
  Claim C6.  A call of \<open>patch\<close> or \<open>delete\<close> issues exactly one request.  When a
  version is given, the request carries it in the header
  \<open>If-Unmodified-Since-Version\<close>; when none is given, its headers are the fixed headers
  of the object and the content type, nothing else.  When the request is rejected (the
  server answers that the version no longer matches), the call ends with that rejection
  for its caller, and no second request has been issued.
\<close>

theorem version_precondition:
  "(\<exists>rq. requests (snd (snd (patch http z uri data version (w, tr)))) = requests tr @ [rq] \<and>
      rq_method rq = ''PATCH'' \<and>
      (version \<noteq> JUndefined \<longrightarrow>
         map_of (rq_headers rq) ''If-Unmodified-Since-Version'' = Some version) \<and>
      (version = JUndefined \<longrightarrow>
         rq_headers rq = AList.update ''Content-Type'' (JStr ''application/json'') (headers z)) \<and>
      (\<forall>e. fst (http w rq) = Inl e \<longrightarrow>
         fst (patch http z uri data version (w, tr)) = Inl (Thrown e))) \<and>
   (\<exists>rq. requests (snd (snd (delete_z http z uri version (w, tr)))) = requests tr @ [rq] \<and>
      rq_method rq = ''DELETE'' \<and>
      (version \<noteq> JUndefined \<longrightarrow>
         map_of (rq_headers rq) ''If-Unmodified-Since-Version'' = Some version) \<and>
      (version = JUndefined \<longrightarrow>
         rq_headers rq = AList.update ''Content-Type'' (JStr ''application/json'') (headers z)) \<and>
      (\<forall>e. fst (http w rq) = Inl e \<longrightarrow>
         fst (delete_z http z uri version (w, tr)) = Inl (Thrown e)))"
proof (intro conjI)
  let ?hs = "if version \<noteq> JUndefined
    then AList.update ''If-Unmodified-Since-Version'' version
           (AList.update ''Content-Type'' (JStr ''application/json'') (headers z))
    else AList.update ''Content-Type'' (JStr ''application/json'') (headers z)"
  let ?p = "\<lparr>rq_method = ''PATCH'', rq_uri = base @ library_prefix z @ uri, rq_headers = ?hs,
    rq_body = data\<rparr>"
  let ?d = "\<lparr>rq_method = ''DELETE'', rq_uri = base @ library_prefix z @ uri, rq_headers = ?hs,
    rq_body = JUndefined\<rparr>"
  have p: "patch http z uri data version (w, tr) =
      request http ?p (w, tr @ (if truthy (arg_of z ''verbose'')
        then [ConsoleError [JStr ''PATCH'', JStr (base @ library_prefix z @ uri)]] else []))"
    by (simp add: patch_def Let_def emit_def)
  have d: "delete_z http z uri version (w, tr) =
      request http ?d (w, tr @ (if truthy (arg_of z ''verbose'')
        then [ConsoleError [JStr ''DELETE'', JStr (base @ library_prefix z @ uri)]] else []))"
    by (simp add: delete_z_def Let_def emit_def)
  show "\<exists>rq. requests (snd (snd (patch http z uri data version (w, tr)))) = requests tr @ [rq] \<and>
      rq_method rq = ''PATCH'' \<and>
      (version \<noteq> JUndefined \<longrightarrow>
         map_of (rq_headers rq) ''If-Unmodified-Since-Version'' = Some version) \<and>
      (version = JUndefined \<longrightarrow>
         rq_headers rq = AList.update ''Content-Type'' (JStr ''application/json'') (headers z)) \<and>
      (\<forall>e. fst (http w rq) = Inl e \<longrightarrow>
         fst (patch http z uri data version (w, tr)) = Inl (Thrown e))"
    by (rule exI [of _ ?p])
       (simp add: p request_result requests_append requests_simps update_conv')
  show "\<exists>rq. requests (snd (snd (delete_z http z uri version (w, tr)))) = requests tr @ [rq] \<and>
      rq_method rq = ''DELETE'' \<and>
      (version \<noteq> JUndefined \<longrightarrow>
         map_of (rq_headers rq) ''If-Unmodified-Since-Version'' = Some version) \<and>
      (version = JUndefined \<longrightarrow>
         rq_headers rq = AList.update ''Content-Type'' (JStr ''application/json'') (headers z)) \<and>
      (\<forall>e. fst (http w rq) = Inl e \<longrightarrow>
         fst (delete_z http z uri version (w, tr)) = Inl (Thrown e))"
    by (rule exI [of _ ?d])
       (simp add: d request_result requests_append requests_simps update_conv')
qed

text \<open>
  The statement for a remote that rejects every request with status 412: \<open>patch\<close> and
  \<open>delete\<close> with version 7 each end with the rejection after one request; the headers
  of \<open>patch\<close> without a version, and with version 7.
\<close>

theorem version_precondition_witness:
  "fst (patch (reject_with (JError ''StatusCodeError'' ''412 - Precondition Failed'' []))
     (new_zotero [(''user_id'', JNum 1), (''verbose'', JBool False)] []) ''/items/ABCD2345''
     (JStr ''{}'') (JNum 7) ((), [])) =
     Inl (Thrown (JError ''StatusCodeError'' ''412 - Precondition Failed'' [])) \<and>
   length (requests (snd (snd (patch (reject_with (JError ''StatusCodeError'' ''412 - Precondition Failed'' []))
     (new_zotero [(''user_id'', JNum 1), (''verbose'', JBool False)] []) ''/items/ABCD2345''
     (JStr ''{}'') (JNum 7) ((), []))))) = 1 \<and>
   fst (delete_z (reject_with (JError ''StatusCodeError'' ''412 - Precondition Failed'' []))
     (new_zotero [(''user_id'', JNum 1), (''verbose'', JBool False)] []) ''/items/ABCD2345''
     (JNum 7) ((), [])) =
     Inl (Thrown (JError ''StatusCodeError'' ''412 - Precondition Failed'' [])) \<and>
   length (requests (snd (snd (delete_z (reject_with (JError ''StatusCodeError'' ''412 - Precondition Failed'' []))
     (new_zotero [(''user_id'', JNum 1), (''verbose'', JBool False)] []) ''/items/ABCD2345''
     (JNum 7) ((), []))))) = 1 \<and>
   map rq_headers (requests (snd (snd (patch (reject_with (JError ''StatusCodeError'' ''412 - Precondition Failed'' []))
     (new_zotero [(''user_id'', JNum 1), (''verbose'', JBool False)] []) ''/items/ABCD2345''
     (JStr ''{}'') JUndefined ((), []))))) =
     [[(''User-Agent'', JStr ''Zotero-CLI''), (''Zotero-API-Version'', JStr ''3''),
       (''Content-Type'', JStr ''application/json'')]] \<and>
   map rq_headers (requests (snd (snd (patch (reject_with (JError ''StatusCodeError'' ''412 - Precondition Failed'' []))
     (new_zotero [(''user_id'', JNum 1), (''verbose'', JBool False)] []) ''/items/ABCD2345''
     (JStr ''{}'') (JNum 7) ((), []))))) =
     [[(''User-Agent'', JStr ''Zotero-CLI''), (''Zotero-API-Version'', JStr ''3''),
       (''Content-Type'', JStr ''application/json''), (''If-Unmodified-Since-Version'', JNum 7)]]"
proof -
  define e where "e = JError ''StatusCodeError'' ''412 - Precondition Failed'' []"
  define z where "z = new_zotero [(''user_id'', JNum 1), (''verbose'', JBool False)] []"
  have r: "fst (reject_with e () rq) = Inl e" for rq by simp
  have n: "requests ([] :: event list) = []" by (simp add: requests_def)
  have h: "AList.update ''Content-Type'' (JStr ''application/json'') (headers z) =
      [(''User-Agent'', JStr ''Zotero-CLI''), (''Zotero-API-Version'', JStr ''3''),
       (''Content-Type'', JStr ''application/json'')]"
    by (simp add: z_def new_zotero_def)
  have a: "fst (patch (reject_with e) z ''/items/ABCD2345'' (JStr ''{}'') (JNum 7) ((), [])) =
        Inl (Thrown e) \<and>
      length (requests (snd (snd (patch (reject_with e) z ''/items/ABCD2345'' (JStr ''{}'') (JNum 7)
        ((), []))))) = 1 \<and>
      fst (delete_z (reject_with e) z ''/items/ABCD2345'' (JNum 7) ((), [])) = Inl (Thrown e) \<and>
      length (requests (snd (snd (delete_z (reject_with e) z ''/items/ABCD2345'' (JNum 7)
        ((), []))))) = 1"
    using version_precondition [of "reject_with e" z "''/items/ABCD2345''" "JStr ''{}''" "JNum 7" "()" "[]"]
    by (auto simp: r n)
  have b: "map rq_headers (requests (snd (snd (patch (reject_with e) z ''/items/ABCD2345''
        (JStr ''{}'') JUndefined ((), []))))) =
      [[(''User-Agent'', JStr ''Zotero-CLI''), (''Zotero-API-Version'', JStr ''3''),
        (''Content-Type'', JStr ''application/json'')]]"
    using version_precondition [of "reject_with e" z "''/items/ABCD2345''" "JStr ''{}''" JUndefined "()" "[]"]
    by (auto simp: n h)
  have c: "map rq_headers (requests (snd (snd (patch (reject_with e) z ''/items/ABCD2345''
        (JStr ''{}'') (JNum 7) ((), []))))) =
      [[(''User-Agent'', JStr ''Zotero-CLI''), (''Zotero-API-Version'', JStr ''3''),
        (''Content-Type'', JStr ''application/json''), (''If-Unmodified-Since-Version'', JNum 7)]]"
    by (simp add: patch_def request_def requests_def emit_def Let_def z_def new_zotero_def
        arg_of_def)
  show ?thesis
    using a b c unfolding e_def z_def by simp
qed

section \<open>Pagination\<close>

lemma page_ok_D:
  assumes "page_ok s p"
  shows "rs_body p = JArr (records p)" and "next_links s p = Inr (links s p)"
    and "header p ''backoff'' = JUndefined"
  using assms by (auto simp: page_ok_def records_def links_def split: jsval.splits sum.splits)

lemma all_step_page:
  assumes "page_ok s q" and "header chunk ''backoff'' = JUndefined"
  shows "all_step serve_pages s z chunk (JArr acc) link (q # qs, tr) =
    (Inr (q, JArr (acc @ records q), links s q), (qs, tr @ [HttpRequest (next_request z link)]))"
  using assms(2) page_ok_D [OF assms(1)]
  by (simp add: all_step_def request_def js_concat_def)

lemma page_sequence_Cons:
  "page_sequence s (p # q # ps) \<Longrightarrow> page_ok s p \<and> has_next (links s p) \<and> page_sequence s (q # ps)"
  by simp

lemma page_sequence_head: "page_sequence s (p # ps) \<Longrightarrow> page_ok s p"
  by (cases ps) auto

lemma all_loop_pages:
  "page_sequence s (chunk # qs) \<Longrightarrow>
   all_loop serve_pages s z chunk (JArr acc) (links s chunk) (qs, tr) =
     Some (Inr (JArr (acc @ concat (map records qs))),
           ([], tr @ map (\<lambda>p. HttpRequest (next_request z (links s p))) (butlast (chunk # qs))))"
proof (induction qs arbitrary: chunk acc tr)
  case Nil
  then show ?case
    by (subst all_loop.simps) simp
next
  case (Cons q qs)
  from Cons.prems have c: "page_ok s chunk" "has_next (links s chunk)" "page_sequence s (q # qs)"
    by simp_all
  have q: "page_ok s q" using c(3) by (rule page_sequence_head)
  have b: "header chunk ''backoff'' = JUndefined" using c(1) by (rule page_ok_D)
  have "all_loop serve_pages s z chunk (JArr acc) (links s chunk) (q # qs, tr) =
      all_loop serve_pages s z q (JArr (acc @ records q)) (links s q)
        (qs, tr @ [HttpRequest (next_request z (links s chunk))])"
    by (subst all_loop.simps) (simp add: c(2) all_step_page [OF q b])
  also have "\<dots> = Some (Inr (JArr ((acc @ records q) @ concat (map records qs))),
      ([], (tr @ [HttpRequest (next_request z (links s chunk))]) @
           map (\<lambda>p. HttpRequest (next_request z (links s p))) (butlast (q # qs))))"
    by (rule Cons.IH [OF c(3)])
  finally show ?case by simp
qed

lemma requests_map_HttpRequest: "requests (map (\<lambda>p. HttpRequest (f p)) ps) = map f ps"
  by (induction ps) (simp_all add: requests_simps)

text \<open>
  Claim C2.  Let the remote serve the pages \<open>ps\<close>, one for each request, where every
  page but the last names a next page, the last names none, every body is an array of
  records and no page has a backoff header.  Then \<open>all\<close> returns, with the records of
  all the pages concatenated in the order of the pages, and the remote has served them
  all; the requests it has issued are the first one, built by \<open>get\<close>, and then one for
  the next link of every page but the last, in that order: as many as there are pages.
\<close>

theorem all_pages:
  assumes "page_sequence s ps"
  shows "\<exists>tr'. all_z serve_pages s z uri qp (ps, tr) =
             Some (Inr (JArr (concat (map records ps))), ([], tr')) \<and>
           requests tr' = requests tr @
             \<lparr>rq_method = ''GET'',
              rq_uri = base @ library_prefix z @ uri @
                (if query_string qp \<noteq> [] then ''?'' @ query_string qp else []),
              rq_headers = headers z, rq_body = JUndefined\<rparr> #
             map (\<lambda>p. next_request z (links s p)) (butlast ps) \<and>
           length (requests tr') = length (requests tr) + length ps"
proof -
  obtain p qs where ps: "ps = p # qs" using assms by (cases ps) auto
  let ?u = "base @ library_prefix z @ uri @
    (if query_string qp \<noteq> [] then ''?'' @ query_string qp else [])"
  let ?rq = "\<lparr>rq_method = ''GET'', rq_uri = ?u, rq_headers = headers z, rq_body = JUndefined\<rparr>"
  let ?v = "if truthy (arg_of z ''verbose'') then [ConsoleError [JStr ''GET'', JStr ?u]] else []"
  let ?tr = "tr @ ?v @ [HttpRequest ?rq] @
    map (\<lambda>p. HttpRequest (next_request z (links s p))) (butlast ps)"
  have p: "page_ok s p" using assms ps page_sequence_head by blast
  have g: "get serve_pages z uri \<lparr>userOrGroupPrefix = None, params = Some qp\<rparr> (ps, tr) =
      (Inr p, (qs, tr @ ?v @ [HttpRequest ?rq]))"
    by (simp add: get_def Let_def request_def emit_def ps)
  have "all_z serve_pages s z uri qp (ps, tr) =
      all_loop serve_pages s z p (JArr (records p)) (links s p) (qs, tr @ ?v @ [HttpRequest ?rq])"
    by (simp add: all_z_def g page_ok_D [OF p])
  also have "\<dots> = Some (Inr (JArr (records p @ concat (map records qs))),
      ([], (tr @ ?v @ [HttpRequest ?rq]) @
           map (\<lambda>p. HttpRequest (next_request z (links s p))) (butlast (p # qs))))"
    using assms unfolding ps by (rule all_loop_pages)
  finally have r: "all_z serve_pages s z uri qp (ps, tr) =
      Some (Inr (JArr (concat (map records ps))), ([], ?tr))"
    by (simp add: ps)
  have v: "requests ?v = []" by (simp add: requests_simps)
  have q: "requests ?tr = requests tr @ ?rq # map (\<lambda>p. next_request z (links s p)) (butlast ps)"
    by (simp add: requests_append v requests_simps requests_map_HttpRequest)
  have n: "length (requests ?tr) = length (requests tr) + length ps"
    unfolding q by (simp add: ps)
  show ?thesis using r q n by blast
qed


text \<open>
  The statement for three pages of a user library, with the records \<open>a b\<close>, \<open>c\<close> and
  \<open>d\<close>: the four records come back in order after three requests.
\<close>

theorem all_pages_witness:
  "page_sequence (sys_with_env [])
     [\<lparr>rs_headers = [(''link'', ''https://api.zotero.org/users/1/items?start=2'')],
        rs_body = JArr [JStr ''a'', JStr ''b'']\<rparr>,
      \<lparr>rs_headers = [(''link'', ''https://api.zotero.org/users/1/items?start=3'')],
        rs_body = JArr [JStr ''c'']\<rparr>,
      \<lparr>rs_headers = [], rs_body = JArr [JStr ''d'']\<rparr>] \<and>
   (\<exists>tr'. all_z serve_pages (sys_with_env [])
       (new_zotero [(''user_id'', JNum 1), (''verbose'', JBool False)] []) ''/items'' []
       ([\<lparr>rs_headers = [(''link'', ''https://api.zotero.org/users/1/items?start=2'')],
           rs_body = JArr [JStr ''a'', JStr ''b'']\<rparr>,
         \<lparr>rs_headers = [(''link'', ''https://api.zotero.org/users/1/items?start=3'')],
           rs_body = JArr [JStr ''c'']\<rparr>,
         \<lparr>rs_headers = [], rs_body = JArr [JStr ''d'']\<rparr>], []) =
       Some (Inr (JArr [JStr ''a'', JStr ''b'', JStr ''c'', JStr ''d'']), ([], tr')) \<and>
     map rq_uri (requests tr') =
       [''https://api.zotero.org/users/1/items'',
        ''https://api.zotero.org/users/1/items?start=2'',
        ''https://api.zotero.org/users/1/items?start=3''])"
proof -
  define s where "s = sys_with_env []"
  define z where "z = new_zotero [(''user_id'', JNum 1), (''verbose'', JBool False)] []"
  define p1 where "p1 = \<lparr>rs_headers = [(''link'', ''https://api.zotero.org/users/1/items?start=2'')],
    rs_body = JArr [JStr ''a'', JStr ''b'']\<rparr>"
  define p2 where "p2 = \<lparr>rs_headers = [(''link'', ''https://api.zotero.org/users/1/items?start=3'')],
    rs_body = JArr [JStr ''c'']\<rparr>"
  define p3 where "p3 = \<lparr>rs_headers = [], rs_body = JArr [JStr ''d'']\<rparr>"
  have l: "links s p1 = [''https://api.zotero.org/users/1/items?start=2'']"
    "links s p2 = [''https://api.zotero.org/users/1/items?start=3'']" "links s p3 = []"
    by (simp_all add: links_def next_links_def header_def s_def sys_with_env_def p1_def p2_def p3_def)
  have k: "page_ok s p1" "page_ok s p2" "page_ok s p3"
    by (simp_all add: page_ok_def next_links_def header_def s_def sys_with_env_def p1_def p2_def p3_def)
  have sq: "page_sequence s [p1, p2, p3]"
    by (simp add: k l has_next_def)
  have r: "records p1 = [JStr ''a'', JStr ''b'']" "records p2 = [JStr ''c'']" "records p3 = [JStr ''d'']"
    by (simp_all add: records_def p1_def p2_def p3_def)
  have u: "library_prefix z = ''/users/1''"
    unfolding z_def by code_simp
  have q: "requests ([] :: event list) = []" "query_string [] = []"
    by (simp_all add: requests_def query_string_def)
  show ?thesis
    using all_pages [OF sq, of z "''/items''" "[]" "[]"] sq
    unfolding s_def [symmetric] z_def [symmetric] p1_def [symmetric] p2_def [symmetric]
      p3_def [symmetric]
    by (auto simp: r l u q base_def next_request_def)
qed

section \<open>Backoff\<close>














section \<open>Failure of a command, and what is emitted\<close>

text \<open>
  Claim C8.  The command line gives an API key, a user id and \<open>--out result.json\<close>.
  When the handler returns, the run completes and writes the output file.  When the
  handler throws, \<open>print\<close> appends the message to the buffer \<open>output\<close> and the process
  exits with code 1 at once: the file is never written and nothing goes to a console,
  so the message reaches no one.  Without \<open>--out\<close> the message goes to \<open>console.log\<close>,
  the standard output, not to the error stream.
\<close>

theorem failure_with_out:
  "run serve_pages (sys_with_env []) global_options (returning_handler)
     (new_zotero [(''command'', JStr ''items''), (''api_key'', JStr ''K''), (''config'', JNull),
        (''user_id'', JNum 1), (''group_id'', JNull), (''indent'', JNull),
        (''out'', JStr ''result.json''), (''verbose'', JBool False)] []) ([], []) =
   Some (Completed,
     \<lparr>args = [(''command'', JStr ''items''), (''api_key'', JStr ''K''), (''config'', JNull),
        (''user_id'', JNum 1), (''group_id'', JNull), (''indent'', JNum 2),
        (''out'', JStr ''result.json''), (''verbose'', JBool False)],
      output_text = [], config = [(''user-id'', JNum 1)],
      headers = [(''User-Agent'', JStr ''Zotero-CLI''), (''Zotero-API-Version'', JStr ''3''),
        (''Zotero-API-Key'', JStr ''K'')]\<rparr>,
     ([], [WriteFile (JStr ''result.json'') []])) \<and>
   run serve_pages (sys_with_env []) global_options (throwing_handler (JError ''Error'' ''boom'' []))
     (new_zotero [(''command'', JStr ''items''), (''api_key'', JStr ''K''), (''config'', JNull),
        (''user_id'', JNum 1), (''group_id'', JNull), (''indent'', JNull),
        (''out'', JStr ''result.json''), (''verbose'', JBool False)] []) ([], []) =
   Some (Exited 1,
     \<lparr>args = [(''command'', JStr ''items''), (''api_key'', JStr ''K''), (''config'', JNull),
        (''user_id'', JNum 1), (''group_id'', JNull), (''indent'', JNum 2),
        (''out'', JStr ''result.json''), (''verbose'', JBool False)],
      output_text = ''Command execution failed:  <Error: boom>'' @ [CHR 0x0A],
      config = [(''user-id'', JNum 1)],
      headers = [(''User-Agent'', JStr ''Zotero-CLI''), (''Zotero-API-Version'', JStr ''3''),
        (''Zotero-API-Key'', JStr ''K'')]\<rparr>,
     ([], [])) \<and>
   trace_of (main serve_pages (sys_with_env []) global_options
     (throwing_handler (JError ''Error'' ''boom'' []))
     (new_zotero [(''command'', JStr ''items''), (''api_key'', JStr ''K''), (''config'', JNull),
        (''user_id'', JNum 1), (''group_id'', JNull), (''indent'', JNull),
        (''out'', JNull), (''verbose'', JBool False)] []) ([], [])) =
   [ConsoleLog [JStr ''Command execution failed: '', JError ''Error'' ''boom'' []]]"
  by code_simp

text \<open>
  Claim C7.  The command \<open>key\<close> with \<open>--verbose\<close> and the API key \<open>SECRETKEY\<close>, the
  remote answering with a body that holds the key.  \<open>show\<close> replaces the key in what it
  prints, but the line that \<open>get\<close> logs for \<open>--verbose\<close> holds the address
  \<open>/keys/SECRETKEY\<close> as it is: the key is written to the error stream.
\<close>

theorem key_in_verbose_log:
  "trace_of (run serve_pages (sys_with_env []) global_options
     (cmd_key serve_pages (sys_with_env []))
     (new_zotero [(''command'', JStr ''key''), (''api_key'', JStr ''SECRETKEY''), (''config'', JNull),
        (''user_id'', JNum 1), (''group_id'', JNull), (''indent'', JNull),
        (''out'', JNull), (''verbose'', JBool True)] [])
     ([\<lparr>rs_headers = [], rs_body = JStr ''key=SECRETKEY''\<rparr>], [])) =
   [ConsoleError [JStr ''GET'', JStr ''https://api.zotero.org/keys/SECRETKEY''],
    HttpRequest \<lparr>rq_method = ''GET'', rq_uri = ''https://api.zotero.org/keys/SECRETKEY'',
      rq_headers = [(''User-Agent'', JStr ''Zotero-CLI''), (''Zotero-API-Version'', JStr ''3''),
        (''Zotero-API-Key'', JStr ''SECRETKEY'')], rq_body = JUndefined\<rparr>,
    ConsoleLog [JStr ''key=<API-KEY>'']]"
  by code_simp

end
